theory Spec2Isabelle
  imports Main "HOL-Library.List_Lexorder"
begin

section \<open>Errors, time and object metadata\<close>

text \<open>
  Go errors are values. \<open>APINotFound\<close> and \<open>APIError\<close> stand for the status errors of
  the object store, \<open>Errorf\<close> for \<open>fmt.Errorf\<close>/\<open>errors.Errorf\<close>/\<open>errors.New\<close>,
  \<open>Wrapf\<close> for \<open>errors.Wrapf\<close>/\<open>errors.Wrap\<close> and a \<open>%w\<close> of \<open>fmt.Errorf\<close>,
  \<open>Aggregate\<close> for \<open>kerrors.NewAggregate\<close> on a non-empty list, and
  \<open>PodControlledByJobNotFoundErr\<close> for the sentinel of the shell job controller and
  \<open>ErrUnstructuredFieldNotFound\<close> for the sentinel of \<open>UnstructuredUnmarshalField\<close>.
\<close>

datatype error =
    APINotFound
  | APIError string
  | Errorf string
  | Wrapf string error
  | Aggregate "error list"
  | PodControlledByJobNotFoundErr
  | ErrUnstructuredFieldNotFound

text \<open>\<open>errors.Cause\<close>: strips the wrappers that carry a cause.\<close>

fun Cause :: "error \<Rightarrow> error" where
  "Cause (Wrapf m e) = Cause e"
| "Cause e = e"

text \<open>\<open>apierrors.IsNotFound\<close>: the error, seen through its wrappers, is the store's not-found.\<close>

fun IsNotFound :: "error \<Rightarrow> bool" where
  "IsNotFound APINotFound = True"
| "IsNotFound (Wrapf m e) = IsNotFound e"
| "IsNotFound e = False"

text \<open>\<open>IsPodControlledByJobNotFound\<close>: \<open>errors.Is\<close> against the sentinel.\<close>

fun IsPodControlledByJobNotFound :: "error \<Rightarrow> bool" where
  "IsPodControlledByJobNotFound PodControlledByJobNotFoundErr = True"
| "IsPodControlledByJobNotFound (Wrapf m e) = IsPodControlledByJobNotFound e"
| "IsPodControlledByJobNotFound e = False"

text \<open>
  A Go call either returns or panics (a nil pointer dereference); \<open>ctrl.Result\<close> is the
  answer of a reconcile pass to the work queue.
\<close>

datatype 'a go = Panic | Ret 'a

record Result =
  Requeue :: bool
  RequeueAfter :: int

definition emptyResult :: Result where
  "emptyResult = \<lparr>Requeue = False, RequeueAfter = 0\<rparr>"

text \<open>\<open>kerrors.NewAggregate\<close>: nil for an empty list of errors.\<close>

definition NewAggregate :: "error list \<Rightarrow> error option" where
  "NewAggregate errs = (if errs = [] then None else Some (Aggregate errs))"

text \<open>
  \<open>time.Duration\<close> counts nanoseconds; \<open>metav1.Time\<close> is an instant, here the number of
  nanoseconds since the zero instant. A \<open>*metav1.Time\<close> is an option.
\<close>

type_synonym Duration = int

definition Second :: Duration where
  "Second = 1000000000"

type_synonym Time = nat

definition Time_IsZero :: "Time option \<Rightarrow> bool" where
  "Time_IsZero t = (case t of None \<Rightarrow> True | Some n \<Rightarrow> n = 0)"

text \<open>
  An external object reference, with the group and the version of its \<open>APIVersion\<close> already
  taken apart.
\<close>

record ObjectReference =
  refGroup :: string
  refVersion :: string
  refKind :: string
  refNamespace :: string
  refName :: string

record OwnerReference =
  ownerGroup :: string
  ownerKind :: string
  ownerName :: string

text \<open>
  \<open>metav1.ObjectMeta\<close>, the part of every object that \<open>metav1.Object\<close> gives access to.
  A Go map that may be nil is an option of a map.
\<close>

record ObjectMeta =
  Name :: string
  Namespace :: string
  DeletionTimestamp :: "Time option"
  Finalizers :: "string list"
  Annotations :: "(string \<rightharpoonup> string) option"
  Labels :: "(string \<rightharpoonup> string) option"
  OwnerReferences :: "OwnerReference list"

section \<open>The Build resource (api/v1alpha1)\<close>

definition BuildFinalizer :: string where
  "BuildFinalizer = ''build.forge.build''"

definition PausedAnnotation :: string where
  "PausedAnnotation = ''forge.build/paused''"

definition BuildNameLabel :: string where
  "BuildNameLabel = ''forge.build/build-name''"

definition BuildNamespaceLabel :: string where
  "BuildNamespaceLabel = ''forge.build/build-namespace''"

definition ProvisionerIDLabel :: string where
  "ProvisionerIDLabel = ''forge.build/provisioner-uuid''"

datatype ProvisionerType = ProvisionerTypeShell | ProvisionerTypeExternal

datatype ProvisionerStatus =
    ProvisionerStatusPending
  | ProvisionerStatusRunning
  | ProvisionerStatusCompleted
  | ProvisionerStatusFailed
  | ProvisionerStatusUnknown
  | ProvisionerStatusOther string

record ProvisionerSpec =
  UUID :: "string option"
  Type :: ProvisionerType
  AllowFail :: bool
  Run :: "string option"
  RunConfigMapRef :: "ObjectReference option"
  Ref :: "ObjectReference option"
  Retries :: "int option"
  Status :: "ProvisionerStatus option"
  FailureReason :: "string option"
  FailureMessage :: "string option"

text \<open>\<open>ConnectorSpec\<close>; \<open>Credentials\<close> is a pointer to a named secret reference.\<close>

record ConnectorSpec =
  ConnectorType :: string
  Credentials :: "string option"

record BuildSpec =
  Paused :: bool
  Connector :: ConnectorSpec
  InfrastructureRef :: "ObjectReference option"
  Provisioners :: "ProvisionerSpec list"
  DeleteCascade :: bool

text \<open>
  The condition types and reasons are named constants of the API package; they are kept
  apart as constructors.
\<close>

datatype ConditionType =
    ReadyCondition
  | InfrastructureReadyCondition
  | ProvisionersReadyCondition
  | BuildInitializedCondition
  | OtherCondition string

datatype ConditionStatus = ConditionTrue | ConditionFalse | ConditionUnknown

datatype ConditionReason =
    NoReason
  | DeletedReason
  | DeletingReason
  | WaitingForInfrastructureFallbackReason
  | WaitingForConnectionReason
  | WaitingForProvisionersReason
  | OtherReason string

datatype ConditionSeverity = SeverityNone | ConditionSeverityInfo | SeverityWarning | SeverityError

record Condition =
  condType :: ConditionType
  condStatus :: ConditionStatus
  condSeverity :: ConditionSeverity
  condReason :: ConditionReason
  condMessage :: string

record FailureDomainSpec =
  fdInfrastructure :: bool
  fdAttributes :: "(string \<times> string) list"

text \<open>\<open>BuildStatusError\<close> is a string; these are its named values.\<close>

definition ProvisionerFailedError :: string where
  "ProvisionerFailedError = ''ProvisionerFailed''"

record BuildStatus =
  FailureDomains :: "(string \<times> FailureDomainSpec) list"
  StatusFailureReason :: "string option"
  StatusFailureMessage :: "string option"
  Conditions :: "Condition list"
  InfrastructureReady :: bool
  Connected :: bool
  ProvisionersReady :: bool
  Phase :: string
  Ready :: bool

record Build =
  Meta :: ObjectMeta
  Spec :: BuildSpec
  BStatus :: BuildStatus

datatype BuildPhase =
    BuildPhasePending
  | BuildPhaseBuilding
  | BuildPhaseTerminating
  | BuildPhaseCompleted
  | BuildPhaseFailed
  | BuildPhaseUnknown

fun phaseString :: "BuildPhase \<Rightarrow> string" where
  "phaseString BuildPhasePending = ''Pending''"
| "phaseString BuildPhaseBuilding = ''Building''"
| "phaseString BuildPhaseTerminating = ''Terminating''"
| "phaseString BuildPhaseCompleted = ''Completed''"
| "phaseString BuildPhaseFailed = ''Failed''"
| "phaseString BuildPhaseUnknown = ''Unknown''"

text \<open>\<open>SetTypedPhase\<close> stores the string of the phase.\<close>

definition SetTypedPhase :: "BuildPhase \<Rightarrow> Build \<Rightarrow> Build" where
  "SetTypedPhase p b = b\<lparr>BStatus := (BStatus b)\<lparr>Phase := phaseString p\<rparr>\<rparr>"

text \<open>\<open>GetTypedPhase\<close>: the five known phases are returned, anything else is Unknown.\<close>

definition GetTypedPhase :: "Build \<Rightarrow> BuildPhase" where
  "GetTypedPhase b =
     (let p = Phase (BStatus b) in
      if p = ''Pending'' then BuildPhasePending
      else if p = ''Building'' then BuildPhaseBuilding
      else if p = ''Terminating'' then BuildPhaseTerminating
      else if p = ''Completed'' then BuildPhaseCompleted
      else if p = ''Failed'' then BuildPhaseFailed
      else BuildPhaseUnknown)"

text \<open>\<open>conditions.Has\<close>: a condition of the given type is in the list.\<close>

definition conditions_Has :: "Build \<Rightarrow> ConditionType \<Rightarrow> bool" where
  "conditions_Has b t = (find (\<lambda>c. condType c = t) (Conditions (BStatus b)) \<noteq> None)"

section \<open>Pause annotations (util/annotations)\<close>

text \<open>\<open>hasAnnotation\<close>: a nil map has no annotation; otherwise the key is looked up.\<close>

definition hasAnnotation :: "ObjectMeta \<Rightarrow> string \<Rightarrow> bool" where
  "hasAnnotation o' annotation =
     (case Annotations o' of
        None \<Rightarrow> False
      | Some annotations \<Rightarrow> (case annotations annotation of None \<Rightarrow> False | Some v \<Rightarrow> True))"

definition HasPaused :: "ObjectMeta \<Rightarrow> bool" where
  "HasPaused o' = hasAnnotation o' PausedAnnotation"

definition IsPaused :: "Build \<Rightarrow> ObjectMeta \<Rightarrow> bool" where
  "IsPaused build o' = (if Paused (Spec build) then True else HasPaused o')"

section \<open>Events\<close>

datatype EventType = EventTypeNormal | EventTypeWarning

record Event =
  evType :: EventType
  evReason :: string
  evMessage :: string

section \<open>Phase projection (pkg/controllers/build/phases.go)\<close>

text \<open>
  \<open>reconcilePhase\<close> mutates the Build and may record one event; the model returns the
  Build and the events recorded. The statements run in the order of the source, each
  guarded assignment overriding the ones before it.
\<close>

definition phaseEvent :: "Build \<Rightarrow> Event" where
  "phaseEvent b =
     (if GetTypedPhase b = BuildPhaseFailed
      then \<lparr>evType = EventTypeWarning, evReason = phaseString (GetTypedPhase b),
            evMessage = ''Build '' @ Name (Meta b) @ '' is '' @ phaseString (GetTypedPhase b) @ '': '' @
              (case StatusFailureMessage (BStatus b) of None \<Rightarrow> ''unknown'' | Some m \<Rightarrow> m)\<rparr>
      else \<lparr>evType = EventTypeNormal, evReason = phaseString (GetTypedPhase b),
            evMessage = ''Build '' @ Name (Meta b) @ '' is '' @ phaseString (GetTypedPhase b)\<rparr>)"

definition reconcilePhase :: "Build \<Rightarrow> Build \<times> Event list" where
  "reconcilePhase build =
     (let preReconcilePhase = GetTypedPhase build in
      if Phase (BStatus build) = [] then (SetTypedPhase BuildPhasePending build, [])
      else
        let b1 = (if InfrastructureRef (Spec build) \<noteq> None \<and> conditions_Has build InfrastructureReadyCondition
                  then SetTypedPhase BuildPhaseBuilding build else build);
            b2 = (if InfrastructureReady (BStatus b1) then SetTypedPhase BuildPhaseBuilding b1 else b1);
            b3 = (if StatusFailureReason (BStatus b2) \<noteq> None \<or> StatusFailureMessage (BStatus b2) \<noteq> None
                  then SetTypedPhase BuildPhaseFailed b2 else b2);
            b4 = (if \<not> Time_IsZero (DeletionTimestamp (Meta b3))
                  then SetTypedPhase BuildPhaseTerminating b3 else b3);
            b5 = (if Ready (BStatus b4) then SetTypedPhase BuildPhaseCompleted b4 else b4)
        in (b5, if preReconcilePhase \<noteq> GetTypedPhase b5 then [phaseEvent b5] else []))"

section \<open>Version resolution for external references (util/conversion)\<close>

text \<open>
  \<open>strings.Compare\<close> and \<open>strings.Split\<close> (with a separator of one byte) of the Go
  library, on byte strings.
\<close>

fun stringsCompare :: "string \<Rightarrow> string \<Rightarrow> int" where
  "stringsCompare [] [] = 0"
| "stringsCompare [] (y # ys) = -1"
| "stringsCompare (x # xs) [] = 1"
| "stringsCompare (x # xs) (y # ys) =
     (if (of_char x :: int) < of_char y then -1
      else if (of_char y :: int) < of_char x then 1
      else stringsCompare xs ys)"

fun stringsSplit :: "char \<Rightarrow> string \<Rightarrow> string list" where
  "stringsSplit sep [] = [[]]"
| "stringsSplit sep (c # cs) =
     (if c = sep then [] # stringsSplit sep cs
      else (case stringsSplit sep cs of
              [] \<Rightarrow> [[c]]
            | w # ws \<Rightarrow> (c # w) # ws))"

text \<open>
  \<open>parseKubeVersion\<close> and \<open>CompareKubeAwareVersionStrings\<close> of
  \<open>k8s.io/apimachinery/pkg/version\<close>, which \<open>KubeAwareAPIVersions.Less\<close> calls. A
  version matches \<open>^v([\\d]+)(?:(alpha|beta)([\\d]+))?$\<close>; \<open>strconv.Atoi\<close> fails on a
  number that does not fit a 64-bit int.
\<close>

definition isDigit :: "char \<Rightarrow> bool" where
  "isDigit c = (48 \<le> (of_char c :: int) \<and> (of_char c :: int) \<le> 57)"

definition digitsValue :: "string \<Rightarrow> int" where
  "digitsValue ds = foldl (\<lambda>a c. 10 * a + (of_char c - 48)) 0 ds"

definition Atoi :: "string \<Rightarrow> int option" where
  "Atoi ds = (if digitsValue ds < 2 ^ 63 then Some (digitsValue ds) else None)"

datatype versionType = versionTypeAlpha | versionTypeBeta | versionTypeGA

fun versionTypeInt :: "versionType \<Rightarrow> int" where
  "versionTypeInt versionTypeAlpha = 0"
| "versionTypeInt versionTypeBeta = 1"
| "versionTypeInt versionTypeGA = 2"

definition stripPrefix :: "string \<Rightarrow> string \<Rightarrow> string option" where
  "stripPrefix p s = (if take (length p) s = p then Some (drop (length p) s) else None)"

definition parseMinor :: "int \<Rightarrow> versionType \<Rightarrow> string \<Rightarrow> (int \<times> versionType \<times> int) option" where
  "parseMinor major vType ds =
     (if ds = [] \<or> \<not> list_all isDigit ds then None
      else (case Atoi ds of None \<Rightarrow> None | Some minor \<Rightarrow> Some (major, vType, minor)))"

definition parseKubeVersion :: "string \<Rightarrow> (int \<times> versionType \<times> int) option" where
  "parseKubeVersion v =
     (case v of
        [] \<Rightarrow> None
      | c # rest \<Rightarrow>
          if c \<noteq> CHR ''v'' then None
          else
            let ds = takeWhile isDigit rest; tl' = dropWhile isDigit rest in
            if ds = [] then None
            else (case Atoi ds of
                    None \<Rightarrow> None
                  | Some major \<Rightarrow>
                      if tl' = [] then Some (major, versionTypeGA, 0)
                      else (case stripPrefix ''alpha'' tl' of
                              Some m \<Rightarrow> parseMinor major versionTypeAlpha m
                            | None \<Rightarrow>
                                (case stripPrefix ''beta'' tl' of
                                   Some m \<Rightarrow> parseMinor major versionTypeBeta m
                                 | None \<Rightarrow> None))))"

definition CompareKubeAwareVersionStrings :: "string \<Rightarrow> string \<Rightarrow> int" where
  "CompareKubeAwareVersionStrings v1 v2 =
     (if v1 = v2 then 0
      else (case (parseKubeVersion v1, parseKubeVersion v2) of
              (None, None) \<Rightarrow> stringsCompare v2 v1
            | (None, Some p2) \<Rightarrow> -1
            | (Some p1, None) \<Rightarrow> 1
            | (Some (v1major, v1type, v1minor), Some (v2major, v2type, v2minor)) \<Rightarrow>
                if v1type \<noteq> v2type then versionTypeInt v1type - versionTypeInt v2type
                else if v1major \<noteq> v2major then v1major - v2major
                else v1minor - v2minor))"

text \<open>\<open>KubeAwareAPIVersions.Less\<close> (pkg/kubernetes/utils.go).\<close>

definition Less :: "string \<Rightarrow> string \<Rightarrow> bool" where
  "Less a b = (CompareKubeAwareVersionStrings a b < 0)"

text \<open>
  \<open>sort.Sort\<close>: on the short slices of a version label Go sorts by insertion, moving
  each element towards the front while it is less than its left neighbour. The sorted
  prefix is kept reversed in \<open>insertBack\<close>, so that the neighbour is the head.
\<close>

fun insertBack :: "('a \<Rightarrow> 'a \<Rightarrow> bool) \<Rightarrow> 'a \<Rightarrow> 'a list \<Rightarrow> 'a list" where
  "insertBack lt x [] = [x]"
| "insertBack lt x (y # ys) = (if lt x y then y # insertBack lt x ys else x # y # ys)"

definition insertionSort :: "('a \<Rightarrow> 'a \<Rightarrow> bool) \<Rightarrow> 'a list \<Rightarrow> 'a list" where
  "insertionSort lt xs = rev (foldl (\<lambda>done x. insertBack lt x done) [] xs)"

text \<open>
  \<open>getLatestAPIVersionFromContract\<close>. The contract label key is
  \<open>buildv1.GroupVersion.String()\<close>, a constant declared outside the files at hand: it is a
  parameter. \<open>%q\<close> quotes the contract in the message.
\<close>

definition quoted :: "string \<Rightarrow> string" where
  "quoted s = [CHR 0x22] @ s @ [CHR 0x22]"

definition noVersionsError :: "string \<Rightarrow> ObjectMeta \<Rightarrow> error" where
  "noVersionsError contract metadata =
     Errorf (''cannot find any versions matching contract '' @ quoted contract @ '' for CRD '' @ Name metadata @
             '' as contract version label(s) are either missing or empty'')"

definition getLatestAPIVersionFromContract :: "string \<Rightarrow> ObjectMeta \<Rightarrow> error + string" where
  "getLatestAPIVersionFromContract contract metadata =
     (case (case Labels metadata of None \<Rightarrow> None | Some labels \<Rightarrow> labels contract) of
        None \<Rightarrow> Inl (noVersionsError contract metadata)
      | Some supportedVersions \<Rightarrow>
          if supportedVersions = [] then Inl (noVersionsError contract metadata)
          else
            let kubeVersions = insertionSort Less (stringsSplit CHR ''_'' supportedVersions)
            in Inr (last kubeVersions))"

text \<open>Auxiliary: the sort key of a well-formed version, and the order on keys.\<close>

definition versionKey :: "string \<Rightarrow> (int \<times> int \<times> int) option" where
  "versionKey v = (case parseKubeVersion v of None \<Rightarrow> None
                   | Some (major, vType, minor) \<Rightarrow> Some (versionTypeInt vType, major, minor))"

definition tripleLess :: "int \<times> int \<times> int \<Rightarrow> int \<times> int \<times> int \<Rightarrow> bool" where
  "tripleLess p q = (case (p, q) of ((t1, a1, b1), (t2, a2, b2)) \<Rightarrow>
      t1 < t2 \<or> (t1 = t2 \<and> (a1 < a2 \<or> (a1 = a2 \<and> b1 < b2))))"

section \<open>The shell provisioner (provisioner/shell/controller)\<close>

subsection \<open>Jobs and Pods\<close>

datatype JobConditionType = JobComplete | JobFailed | JobOtherCondition string

text \<open>
  A \<open>batchv1.Job\<close>: its metadata, the match labels of its selector (a pointer), the
  fields the builder fills, and the types of its status conditions, in order.
\<close>

record Job =
  jobMeta :: ObjectMeta
  jobSelector :: "(string \<rightharpoonup> string) option"
  jobBackoffLimit :: int
  jobArgs :: "string list"
  jobImage :: string
  jobConditions :: "JobConditionType list"

record ContainerStateTerminated =
  ExitCode :: int
  Reason :: string
  Message :: string

record ContainerStatus =
  csName :: string
  csTerminated :: "ContainerStateTerminated option"

record Pod =
  InitContainerStatuses :: "ContainerStatus list"
  ContainerStatuses :: "ContainerStatus list"

subsection \<open>Running one provisioner: \<open>Reconcile\<close> (reconcile.go)\<close>

datatype OperationResult = OperationResultNone | OperationResultCreated | OperationResultUpdated

text \<open>
  What \<open>Reconcile\<close> gets from outside: the fresh UUID, the hash that names the Job
  (\<open>kube.ComputeHash\<close>, not among the files at hand) and the answer of the store to
  \<open>CreateOrPatch\<close>.
\<close>

record ShellEnv =
  newUUID :: string
  ComputeHash :: "string \<Rightarrow> string"
  CreateOrPatch :: "Job \<Rightarrow> error + OperationResult"

definition ShellProvisionerRepo :: string where
  "ShellProvisionerRepo = ''ghcr.io/forge-build/forge-provisioner-shell''"

definition ShellProvisionerTag :: string where
  "ShellProvisionerTag = ''dev''"

definition ForgeCoreNamespace :: string where
  "ForgeCoreNamespace = ''forge-core''"

definition ManagedByLabel :: string where
  "ManagedByLabel = ''forge.build/managed-by''"

text \<open>
  \<open>ShellJobBuilder.Build\<close> for the fields \<open>Reconcile\<close> sets: the labels, the namespace,
  the name, the backoff limit, the image and the arguments of \<open>getArgs\<close> with an empty
  script reference. The name of the managing component is a constant declared elsewhere
  and is a parameter. \<open>Build\<close> never returns an error.
\<close>

definition buildJob :: "ShellEnv \<Rightarrow> string \<Rightarrow> string \<Rightarrow> string \<Rightarrow> string \<Rightarrow> int \<Rightarrow> string \<Rightarrow> string \<Rightarrow> Job" where
  "buildJob env managedBy buildNamespace buildName uuid backoffLimit secretName scriptToRun =
     \<lparr>jobMeta =
        \<lparr>Name = ''forge-provisioner-shell-'' @ ComputeHash env buildName,
         Namespace = ForgeCoreNamespace, DeletionTimestamp = None, Finalizers = [],
         Annotations = Some Map.empty,
         Labels = Some [ManagedByLabel \<mapsto> managedBy, BuildNameLabel \<mapsto> buildName,
                        ProvisionerIDLabel \<mapsto> uuid, BuildNamespaceLabel \<mapsto> buildNamespace],
         OwnerReferences = []\<rparr>,
      jobSelector = None,
      jobBackoffLimit = backoffLimit,
      jobArgs = [''--namespace'', buildNamespace, ''--run-script'', scriptToRun,
                 ''--ssh-credentials-secret-name'', secretName],
      jobImage = ShellProvisionerRepo @ '':'' @ ShellProvisionerTag,
      jobConditions = []\<rparr>"

definition requeueAfter :: "int \<Rightarrow> Result" where
  "requeueAfter d = \<lparr>Requeue = False, RequeueAfter = d\<rparr>"

text \<open>
  The switch on \<open>*spec.Status\<close>. Reading the status, the UUID, the failure reason or the
  failure message through a nil pointer panics; the failure reason of the Build is
  assigned before the message is formatted.
\<close>

definition reconcileStatus :: "Build \<Rightarrow> ProvisionerSpec \<Rightarrow> Build \<times> ProvisionerSpec \<times> (Result \<times> error option) go" where
  "reconcileStatus build spec =
     (case Status spec of
        None \<Rightarrow> (build, spec, Panic)
      | Some ProvisionerStatusPending \<Rightarrow> (build, spec, Ret (emptyResult, None))
      | Some ProvisionerStatusRunning \<Rightarrow> (build, spec, Ret (requeueAfter (2 * Second), None))
      | Some ProvisionerStatusCompleted \<Rightarrow> (build, spec, Ret (emptyResult, None))
      | Some ProvisionerStatusFailed \<Rightarrow>
          if AllowFail spec then (build, spec, Ret (emptyResult, None))
          else
            let b1 = build\<lparr>BStatus := (BStatus build)\<lparr>StatusFailureReason := Some ProvisionerFailedError\<rparr>\<rparr> in
            (case (UUID spec, FailureReason spec, FailureMessage spec) of
               (Some u, Some r, Some m) \<Rightarrow>
                 (b1\<lparr>BStatus := (BStatus b1)\<lparr>StatusFailureMessage :=
                        Some (''Provisioner '' @ u @ '' failed with Reason '' @ r @ '' and Message '' @ m)\<rparr>\<rparr>,
                  spec, Ret (emptyResult, None))
             | _ \<Rightarrow> (b1, spec, Panic))
      | Some _ \<Rightarrow> (build, spec, Ret (emptyResult, None)))"

text \<open>
  \<open>Reconcile\<close>: without a UUID the Job is built and applied first. The calls made to the
  store are returned with the result.
\<close>

definition Reconcile ::
    "ShellEnv \<Rightarrow> string \<Rightarrow> Build \<Rightarrow> ProvisionerSpec \<Rightarrow>
       Build \<times> ProvisionerSpec \<times> Job list \<times> (Result \<times> error option) go" where
  "Reconcile env managedBy build spec =
     (if UUID spec = None then
        (case Credentials (Connector (Spec build)) of
           None \<Rightarrow> (build, spec, [], Panic)
         | Some secretName \<Rightarrow>
             if RunConfigMapRef spec \<noteq> None \<and> Run spec = None then (build, spec, [], Panic)
             else
               let uuid = newUUID env;
                   desired = buildJob env managedBy (Namespace (Meta build)) (Name (Meta build)) uuid
                               (case Retries spec of None \<Rightarrow> 1 | Some n \<Rightarrow> n) secretName
                               (case Run spec of None \<Rightarrow> [] | Some s \<Rightarrow> s)
               in (case CreateOrPatch env desired of
                     Inl err \<Rightarrow> (build, spec, [desired], Ret (emptyResult, Some err))
                   | Inr op \<Rightarrow>
                       let spec1 = spec\<lparr>UUID := Some uuid, Status := Some ProvisionerStatusRunning\<rparr> in
                       if op \<noteq> OperationResultNone
                       then (build, spec1, [desired], Ret (requeueAfter (2 * Second), None))
                       else (case reconcileStatus build spec1 of
                               (b, s, r) \<Rightarrow> (b, s, [desired], r))))
      else (case reconcileStatus build spec of (b, s, r) \<Rightarrow> (b, s, [], r)))"

subsection \<open>The Job observer: \<open>reconcileJobs\<close> (reconcile.go)\<close>

text \<open>
  What the observer gets from the store, and what it does to it. Every log line, patch and
  delete of a pass is recorded, in order.
\<close>

record ObserverEnv =
  GetJob :: "string \<Rightarrow> string \<Rightarrow> error + Job"
  GetBuild :: "string \<Rightarrow> string \<Rightarrow> error + Build"
  NewHelper :: "Build \<Rightarrow> error option"
  PatchBuild :: "Build \<Rightarrow> error option"
  DeleteJob :: "Job \<Rightarrow> error option"
  ClientsetGetJob :: "string \<Rightarrow> string \<Rightarrow> error + Job"
  ListPods :: "string \<Rightarrow> string \<Rightarrow> error + Pod list"

datatype ObserverCall =
    LogInfo string
  | LogError error string
  | Patched Build
  | Deleted Job

text \<open>A Go map from container names to states, as the list of its entries.\<close>

fun mapPut :: "'k \<Rightarrow> 'v \<Rightarrow> ('k \<times> 'v) list \<Rightarrow> ('k \<times> 'v) list" where
  "mapPut k v [] = [(k, v)]"
| "mapPut k v ((k', v') # ps) = (if k' = k then (k, v) # ps else (k', v') # mapPut k v ps)"

definition addTerminated ::
    "(string \<times> ContainerStateTerminated) list \<Rightarrow> ContainerStatus \<Rightarrow> (string \<times> ContainerStateTerminated) list" where
  "addTerminated states status =
     (case csTerminated status of None \<Rightarrow> states | Some t \<Rightarrow> mapPut (csName status) t states)"

definition GetTerminatedContainersStatusesByPod :: "Pod option \<Rightarrow> (string \<times> ContainerStateTerminated) list" where
  "GetTerminatedContainersStatusesByPod pod =
     (case pod of
        None \<Rightarrow> []
      | Some p \<Rightarrow> foldl addTerminated (foldl addTerminated [] (InitContainerStatuses p)) (ContainerStatuses p))"

text \<open>\<open>deleteJob\<close>: a Job that is already gone is no error.\<close>

definition deleteJob :: "ObserverEnv \<Rightarrow> Job \<Rightarrow> ObserverCall list \<times> error option" where
  "deleteJob env job =
     ([Deleted job],
      case DeleteJob env job of
        None \<Rightarrow> None
      | Some err \<Rightarrow> if IsNotFound err then None else Some (Wrapf ''deleting job'' err))"

text \<open>
  \<open>podListLookup\<close> reads the match labels through the selector pointer of the refreshed
  Job; a missing key of a Go map reads as the empty string.
\<close>

definition labelOr :: "(string \<rightharpoonup> string) \<Rightarrow> string \<Rightarrow> string" where
  "labelOr m k = (case m k of None \<Rightarrow> [] | Some v \<Rightarrow> v)"

definition podListLookup :: "ObserverEnv \<Rightarrow> string \<Rightarrow> Job \<Rightarrow> (error + Pod list) go" where
  "podListLookup env namespace refreshedJob =
     (case jobSelector refreshedJob of
        None \<Rightarrow> Panic
      | Some matchLabels \<Rightarrow>
          let v1 = labelOr matchLabels ''controller-uid'';
              key = (if v1 = [] then ''batch.kubernetes.io/controller-uid'' else ''controller-uid'');
              val = (if v1 = [] then labelOr matchLabels ''batch.kubernetes.io/controller-uid'' else v1)
          in Ret (ListPods env namespace (key @ ''='' @ val)))"

definition getPodByJob :: "ObserverEnv \<Rightarrow> Job \<Rightarrow> (error + Pod option) go" where
  "getPodByJob env job =
     (case ClientsetGetJob env (Namespace (jobMeta job)) (Name (jobMeta job)) of
        Inl err \<Rightarrow> Ret (Inl err)
      | Inr refreshedJob \<Rightarrow>
          (case podListLookup env (Namespace (jobMeta job)) refreshedJob of
             Panic \<Rightarrow> Panic
           | Ret (Inl err) \<Rightarrow> Ret (Inl err)
           | Ret (Inr []) \<Rightarrow> Ret (Inr None)
           | Ret (Inr (p # ps)) \<Rightarrow> Ret (Inr (Some p))))"

text \<open>
  \<open>GetTerminatedContainersStatusesByJob\<close> returns the statuses (nil is the empty map) and an
  error. When the Pod is reported gone by the sentinel, the Job is deleted and the error
  of that delete is returned.
\<close>

definition GetTerminatedContainersStatusesByJob ::
    "ObserverEnv \<Rightarrow> Job \<Rightarrow> ObserverCall list \<times> ((string \<times> ContainerStateTerminated) list \<times> error option) go" where
  "GetTerminatedContainersStatusesByJob env job =
     (case getPodByJob env job of
        Panic \<Rightarrow> ([], Panic)
      | Ret (Inl err) \<Rightarrow>
          if IsNotFound err then ([LogInfo ''Cached job must have been deleted''], Ret ([], Some err))
          else if IsPodControlledByJobNotFound err then
            (case deleteJob env job of
               (calls, err') \<Rightarrow> (LogInfo ''Pod must have been deleted'' # calls, Ret ([], err')))
          else ([], Ret ([], Some (Wrapf ''unknown issue'' err)))
      | Ret (Inr pod) \<Rightarrow> ([], Ret (GetTerminatedContainersStatusesByPod pod, None)))"

text \<open>
  \<open>GetProvisionerByID\<close> (util): the index of the first provisioner whose UUID, read as the
  empty string when nil, is the identifier.
\<close>

fun findProvisioner :: "ProvisionerSpec list \<Rightarrow> string \<Rightarrow> nat option" where
  "findProvisioner [] ident = None"
| "findProvisioner (p # ps) ident =
     (if (case UUID p of None \<Rightarrow> [] | Some u \<Rightarrow> u) = ident then Some 0
      else map_option Suc (findProvisioner ps ident))"

definition GetProvisionerByID :: "Build \<Rightarrow> string \<Rightarrow> error + nat" where
  "GetProvisionerByID build ident =
     (case findProvisioner (Provisioners (Spec build)) ident of
        None \<Rightarrow> Inl (Errorf (''provisioner with ID '' @ quoted ident @ '' not found in Build '' @ quoted (Name (Meta build))))
      | Some i \<Rightarrow> Inr i)"

text \<open>The provisioner is a pointer into the list of the Build: a write to it changes the Build.\<close>

definition updateProvisioner :: "nat \<Rightarrow> (ProvisionerSpec \<Rightarrow> ProvisionerSpec) \<Rightarrow> Build \<Rightarrow> Build" where
  "updateProvisioner i f build =
     build\<lparr>Spec := (Spec build)\<lparr>Provisioners :=
       (Provisioners (Spec build))[i := f (Provisioners (Spec build) ! i)]\<rparr>\<rparr>"

definition patchLogged :: "ObserverEnv \<Rightarrow> Build \<Rightarrow> ObserverCall list" where
  "patchLogged env build =
     Patched build # (case PatchBuild env build of None \<Rightarrow> [] | Some err \<Rightarrow> [LogError err ''failed to patch build''])"

definition processCompleteScanJob ::
    "ObserverEnv \<Rightarrow> Job \<Rightarrow> Build \<Rightarrow> string \<Rightarrow> ObserverCall list \<times> error option" where
  "processCompleteScanJob env job build provisionerID =
     (case GetProvisionerByID build provisionerID of
        Inl err \<Rightarrow> ([LogInfo ''Job complete''],
                     Some (Wrapf (''unable to find provisioner with id '' @ provisionerID @ '' in the build '' @ Name (Meta build)) err))
      | Inr i \<Rightarrow>
          let build1 = updateProvisioner i (\<lambda>p. p\<lparr>Status := Some ProvisionerStatusCompleted\<rparr>) build in
          (case deleteJob env job of
             (calls, err) \<Rightarrow>
               ([LogInfo ''Job complete''] @ patchLogged env build1 @
                [LogInfo ''Job complete - Deleting complete shell job''] @ calls, err)))"

text \<open>
  The loop over the statuses of \<open>processFailedScanJob\<close>: every entry with a non-zero exit
  code is logged and overwrites the failure reason and message of the provisioner. Go
  visits the entries of a map in no fixed order; the model visits them in the order of
  the list.
\<close>

definition recordFailure ::
    "nat \<Rightarrow> ObserverCall list \<times> Build \<Rightarrow> string \<times> ContainerStateTerminated \<Rightarrow> ObserverCall list \<times> Build" where
  "recordFailure i acc entry =
     (case acc of (calls, build) \<Rightarrow>
        if ExitCode (snd entry) = 0 then (calls, build)
        else (calls @ [LogError (Errorf ''shell job failed'')
                         (''shelljob failed with reason: '' @ Reason (snd entry) @ '' and message: '' @ Message (snd entry))],
              updateProvisioner i (\<lambda>p. p\<lparr>FailureReason := Some (Reason (snd entry)),
                                          FailureMessage := Some (Message (snd entry))\<rparr>) build))"

definition processFailedScanJob ::
    "ObserverEnv \<Rightarrow> Job \<Rightarrow> Build \<Rightarrow> string \<Rightarrow> ObserverCall list \<times> error option go" where
  "processFailedScanJob env job build provisionerID =
     (case GetTerminatedContainersStatusesByJob env job of
        (calls0, Panic) \<Rightarrow> (LogInfo ''Job failed'' # calls0, Panic)
      | (calls0, Ret (statuses, Some err)) \<Rightarrow>
          (LogInfo ''Job failed'' # calls0 @ [LogError err ''Could not get terminated container statuses''], Ret (Some err))
      | (calls0, Ret (statuses, None)) \<Rightarrow>
          (case GetProvisionerByID build provisionerID of
             Inl err \<Rightarrow> (LogInfo ''Job failed'' # calls0,
                          Ret (Some (Wrapf (''unable to find provisioner with id '' @ provisionerID @ '' in the build '' @ Name (Meta build)) err)))
           | Inr i \<Rightarrow>
               (case foldl (recordFailure i) ([], build) statuses of
                  (calls1, build1) \<Rightarrow>
                    let build2 = updateProvisioner i (\<lambda>p. p\<lparr>Status := Some ProvisionerStatusFailed\<rparr>) build1 in
                    (case deleteJob env job of
                       (calls2, err) \<Rightarrow>
                         (LogInfo ''Job failed'' # calls0 @ calls1 @ patchLogged env build2 @
                          [LogInfo ''Deleting failed scan job''] @ calls2, Ret err)))))"

text \<open>
  \<open>reconcileJobs\<close>, for the request of a namespace and a name. The first condition of the
  Job decides; any error is logged and returned with an empty result.
\<close>

fun jobConditionString :: "JobConditionType \<Rightarrow> string" where
  "jobConditionString JobComplete = ''Complete''"
| "jobConditionString JobFailed = ''Failed''"
| "jobConditionString (JobOtherCondition s) = s"

definition jobLabel :: "Job \<Rightarrow> string \<Rightarrow> string" where
  "jobLabel job k = (case Labels (jobMeta job) of None \<Rightarrow> [] | Some m \<Rightarrow> labelOr m k)"

definition logFailure :: "error option \<Rightarrow> ObserverCall list" where
  "logFailure err = (case err of None \<Rightarrow> [] | Some e \<Rightarrow> [LogError e ''Failed processing job''])"

definition reconcileJobs ::
    "ObserverEnv \<Rightarrow> string \<Rightarrow> string \<Rightarrow> ObserverCall list \<times> (Result \<times> error option) go" where
  "reconcileJobs env namespace name =
     (case GetJob env namespace name of
        Inl err \<Rightarrow>
          if IsNotFound err then ([LogInfo ''Ignoring cached job that must have been deleted''], Ret (emptyResult, None))
          else ([], Ret (emptyResult, Some (Wrapf ''getting job from cache'' err)))
      | Inr job \<Rightarrow>
          (case jobConditions job of
             [] \<Rightarrow> ([LogInfo ''Ignoring Job without conditions''], Ret (emptyResult, None))
           | jobCondition # others \<Rightarrow>
               let buildName = jobLabel job BuildNameLabel;
                   buildNamespace = jobLabel job BuildNamespaceLabel;
                   provisionerID = jobLabel job ProvisionerIDLabel
               in (case GetBuild env buildNamespace buildName of
                     Inl err \<Rightarrow>
                       if IsNotFound err
                       then ([LogInfo ''Ignoring cached job that must have been deleted''], Ret (emptyResult, None))
                       else ([], Ret (emptyResult, Some (Wrapf ''getting build from cache'' err)))
                   | Inr build \<Rightarrow>
                       (case NewHelper env build of
                          Some err \<Rightarrow> ([], Ret (emptyResult, Some (Wrapf ''failed to create patch helper'' err)))
                        | None \<Rightarrow>
                            (case jobCondition of
                               JobComplete \<Rightarrow>
                                 (case processCompleteScanJob env job build provisionerID of
                                    (calls, err) \<Rightarrow> (calls @ logFailure err, Ret (emptyResult, err)))
                             | JobFailed \<Rightarrow>
                                 (case processFailedScanJob env job build provisionerID of
                                    (calls, Panic) \<Rightarrow> (calls, Panic)
                                  | (calls, Ret err) \<Rightarrow> (calls @ logFailure err, Ret (emptyResult, err)))
                             | JobOtherCondition t \<Rightarrow>
                                 let err = Errorf (''unrecognized scan job condition: '' @ t)
                                 in (logFailure (Some err), Ret (emptyResult, Some err)))))))"

section \<open>The Build controller (controllers.go)\<close>

subsection \<open>Untyped objects, the store and the libraries\<close>

text \<open>
  An untyped object: its group, version and kind, its metadata and the conditions of its
  status. The rest of the document belongs to the provider and is read only through the
  functions of \<open>ExternalLib\<close>.
\<close>

type_synonym GVK = "string \<times> string \<times> string"

record Unstructured =
  uGVK :: GVK
  uMeta :: ObjectMeta
  uConditions :: "Condition list"

definition refGVK :: "ObjectReference \<Rightarrow> GVK" where
  "refGVK ref = (refGroup ref, refVersion ref, refKind ref)"

text \<open>\<open>GroupVersionKind.String\<close>, the \<open>%v\<close> of a kind.\<close>

definition gvkString :: "GVK \<Rightarrow> string" where
  "gvkString gvk = (case gvk of (g, v, k) \<Rightarrow> g @ ''/'' @ v @ '', Kind='' @ k)"

text \<open>
  The answers of the object store to the calls of one pass. \<open>PatchBuildObj\<close> gets the
  Build as it was fetched, the Build to write, and whether the observed generation is to
  be patched.
\<close>

record Store =
  GetBuildObj :: "string \<Rightarrow> string \<Rightarrow> error + Build"
  NewPatchHelper :: "Build \<Rightarrow> error option"
  PatchBuildObj :: "Build \<Rightarrow> Build \<Rightarrow> bool \<Rightarrow> error option"
  GetCRDMetadata :: "string \<Rightarrow> string \<Rightarrow> error + ObjectMeta"
  Watch :: "Unstructured \<Rightarrow> error option"
  NewObjectPatchHelper :: "Unstructured \<Rightarrow> error option"
  PatchObject :: "Unstructured \<Rightarrow> Unstructured \<Rightarrow> error option"
  ListObjects :: "GVK \<Rightarrow> string \<Rightarrow> string \<Rightarrow> error + Unstructured list"
  GVKForObject :: "Unstructured \<Rightarrow> error + GVK"
  DeleteObject :: "Unstructured \<Rightarrow> error option"

text \<open>
  The package \<open>internal/external\<close> and the ownership helpers are not among the files at
  hand; their functions are parameters of the model.
\<close>

record ExternalLib =
  ExternalGet :: "ObjectReference \<Rightarrow> string \<Rightarrow> error + Unstructured"
  FailuresFrom :: "Unstructured \<Rightarrow> error + (string \<times> string)"
  IsMachineReady :: "Unstructured \<Rightarrow> error + bool"
  IsReady :: "Unstructured \<Rightarrow> error + bool"
  UnmarshalFailureDomains :: "Unstructured \<Rightarrow> error + (string \<times> FailureDomainSpec) list"
  IsOwnedByObject :: "ObjectMeta \<Rightarrow> Build \<Rightarrow> bool"
  SetControllerReference :: "Build \<Rightarrow> Unstructured \<Rightarrow> error + Unstructured"

text \<open>
  The condition library: \<open>conditions.Set\<close> stores a condition in a list (it keeps
  transition times and an order of display), the summary merges the listed condition
  types into a Ready condition. Both are parameters.
\<close>

record CondLib =
  condSet :: "Condition list \<Rightarrow> Condition \<Rightarrow> Condition list"
  condSummary :: "Condition list \<Rightarrow> ConditionType list \<Rightarrow> Condition option"

record BuildEnv =
  store :: Store
  ext :: ExternalLib
  cond :: CondLib
  contractLabel :: string

text \<open>
  The calls of a pass, recorded in order: what was read from and written to the store,
  the events given to the recorder, and the phases of the forward pipeline as they are
  called.
\<close>

datatype PhaseName = InfrastructurePhase | ConnectionPhase | ProvisionersPhase | ImageProvidedPhase

datatype Call =
    FetchedCRD string string
  | FetchedRef ObjectReference
  | Watched Unstructured
  | PatchedObject Unstructured
  | PatchedBuild Build
  | Listed GVK
  | DeletedObject Unstructured
  | Recorded Event
  | PhaseCalled PhaseName

subsection \<open>Conditions\<close>

definition conditions_Get :: "Condition list \<Rightarrow> ConditionType \<Rightarrow> Condition option" where
  "conditions_Get cs t = find (\<lambda>c. condType c = t) cs"

definition conditions_IsTrue :: "Build \<Rightarrow> ConditionType \<Rightarrow> bool" where
  "conditions_IsTrue b t =
     (case conditions_Get (Conditions (BStatus b)) t of None \<Rightarrow> False | Some c \<Rightarrow> condStatus c = ConditionTrue)"

definition TrueCondition :: "ConditionType \<Rightarrow> Condition" where
  "TrueCondition t =
     \<lparr>condType = t, condStatus = ConditionTrue, condSeverity = SeverityNone, condReason = NoReason,
      condMessage = []\<rparr>"

definition FalseCondition :: "ConditionType \<Rightarrow> ConditionReason \<Rightarrow> ConditionSeverity \<Rightarrow> string \<Rightarrow> Condition" where
  "FalseCondition t reason severity message =
     \<lparr>condType = t, condStatus = ConditionFalse, condSeverity = severity, condReason = reason,
      condMessage = message\<rparr>"

definition setCondition :: "BuildEnv \<Rightarrow> Condition \<Rightarrow> Build \<Rightarrow> Build" where
  "setCondition env c b = b\<lparr>BStatus := (BStatus b)\<lparr>Conditions := condSet (cond env) (Conditions (BStatus b)) c\<rparr>\<rparr>"

definition MarkTrue :: "BuildEnv \<Rightarrow> ConditionType \<Rightarrow> Build \<Rightarrow> Build" where
  "MarkTrue env t b = setCondition env (TrueCondition t) b"

definition MarkFalse :: "BuildEnv \<Rightarrow> ConditionType \<Rightarrow> ConditionReason \<Rightarrow> ConditionSeverity \<Rightarrow> string \<Rightarrow> Build \<Rightarrow> Build" where
  "MarkFalse env t reason severity message b = setCondition env (FalseCondition t reason severity message) b"

text \<open>
  \<open>conditions.SetMirror\<close> with a fallback: the Ready condition of the source, or the
  fallback when the source has none, stored under the target type.
\<close>

definition SetMirror ::
    "BuildEnv \<Rightarrow> ConditionType \<Rightarrow> Unstructured \<Rightarrow> bool \<Rightarrow> ConditionReason \<Rightarrow> ConditionSeverity \<Rightarrow> Build \<Rightarrow> Build" where
  "SetMirror env target from fallbackTo reason severity b =
     (case conditions_Get (uConditions from) ReadyCondition of
        Some c \<Rightarrow> setCondition env (c\<lparr>condType := target\<rparr>) b
      | None \<Rightarrow>
          setCondition env (if fallbackTo then TrueCondition target else FalseCondition target reason severity []) b)"

definition SetSummary :: "BuildEnv \<Rightarrow> ConditionType list \<Rightarrow> Build \<Rightarrow> Build" where
  "SetSummary env ts b =
     (case condSummary (cond env) (Conditions (BStatus b)) ts of
        None \<Rightarrow> b
      | Some c \<Rightarrow> setCondition env c b)"

subsection \<open>Finalizers (controllerutil)\<close>

definition ContainsFinalizer :: "Build \<Rightarrow> string \<Rightarrow> bool" where
  "ContainsFinalizer b f = (f \<in> set (Finalizers (Meta b)))"

definition AddFinalizer :: "string \<Rightarrow> Build \<Rightarrow> Build" where
  "AddFinalizer f b =
     (if f \<in> set (Finalizers (Meta b)) then b
      else b\<lparr>Meta := (Meta b)\<lparr>Finalizers := Finalizers (Meta b) @ [f]\<rparr>\<rparr>)"

definition RemoveFinalizer :: "string \<Rightarrow> Build \<Rightarrow> Build" where
  "RemoveFinalizer f b = b\<lparr>Meta := (Meta b)\<lparr>Finalizers := filter (\<lambda>x. x \<noteq> f) (Finalizers (Meta b))\<rparr>\<rparr>"

subsection \<open>The external reference: \<open>UpdateReferenceAPIContract\<close> and \<open>reconcileExternal\<close>\<close>

text \<open>
  \<open>UpdateReferenceAPIContract\<close> changes the version of the reference in place; the model
  returns the reference.
\<close>

definition UpdateReferenceAPIContract :: "BuildEnv \<Rightarrow> ObjectReference \<Rightarrow> error + ObjectReference" where
  "UpdateReferenceAPIContract env ref =
     (case GetCRDMetadata (store env) (refGroup ref) (refKind ref) of
        Inl err \<Rightarrow> Inl (Wrapf ''failed to update apiVersion in ref''
                           (Wrapf ''failed to retrieve metadata from GVK resource'' err))
      | Inr metadata \<Rightarrow>
          (case getLatestAPIVersionFromContract (contractLabel env) metadata of
             Inl err \<Rightarrow> Inl (Wrapf ''failed to update apiVersion in ref'' err)
           | Inr chosen \<Rightarrow>
               Inr (if refVersion ref \<noteq> chosen then ref\<lparr>refVersion := chosen\<rparr> else ref)))"

record ReconcileOutput =
  roRequeueAfter :: int
  roPaused :: bool
  roResult :: "Unstructured option"

definition emptyOutput :: ReconcileOutput where
  "emptyOutput = \<lparr>roRequeueAfter = 0, roPaused = False, roResult = None\<rparr>"

definition setBuildLabel :: "Build \<Rightarrow> Unstructured \<Rightarrow> Unstructured" where
  "setBuildLabel build obj =
     obj\<lparr>uMeta := (uMeta obj)\<lparr>Labels :=
       Some ((case Labels (uMeta obj) of None \<Rightarrow> Map.empty | Some labels \<Rightarrow> labels)
               (BuildNameLabel \<mapsto> Name (Meta build)))\<rparr>\<rparr>"

definition setFailures :: "Unstructured \<Rightarrow> string \<times> string \<Rightarrow> Build \<Rightarrow> Build" where
  "setFailures obj failures build =
     (case failures of (failureReason, failureMessage) \<Rightarrow>
        let b1 = (if failureReason \<noteq> []
                  then build\<lparr>BStatus := (BStatus build)\<lparr>StatusFailureReason := Some failureReason\<rparr>\<rparr>
                  else build)
        in if failureMessage \<noteq> []
           then b1\<lparr>BStatus := (BStatus b1)\<lparr>StatusFailureMessage :=
                  Some (''Failure detected from referenced resource '' @ gvkString (uGVK obj) @ '' with name '' @
                        quoted (Name (uMeta obj)) @ '': '' @ failureMessage)\<rparr>\<rparr>
           else b1)"

text \<open>
  The part of \<open>reconcileExternal\<close> after the object is fetched: the watch, the pause check,
  ownership and label, the patch of the object, the failures copied to the Build.
\<close>

definition adoptExternal ::
    "BuildEnv \<Rightarrow> Build \<Rightarrow> Unstructured \<Rightarrow> Build \<times> Call list \<times> ReconcileOutput \<times> error option" where
  "adoptExternal env build obj =
     (case Watch (store env) obj of
        Some err \<Rightarrow> (build, [Watched obj], emptyOutput, Some err)
      | None \<Rightarrow>
          if IsPaused build (uMeta obj) then (build, [Watched obj], emptyOutput\<lparr>roPaused := True\<rparr>, None)
          else
            (case NewObjectPatchHelper (store env) obj of
               Some err \<Rightarrow> (build, [Watched obj], emptyOutput, Some err)
             | None \<Rightarrow>
                 (case SetControllerReference (ext env) build obj of
                    Inl err \<Rightarrow> (build, [Watched obj], emptyOutput, Some err)
                  | Inr owned \<Rightarrow>
                      let obj1 = setBuildLabel build owned in
                      (case PatchObject (store env) obj obj1 of
                         Some err \<Rightarrow> (build, [Watched obj, PatchedObject obj1], emptyOutput, Some err)
                       | None \<Rightarrow>
                           (case FailuresFrom (ext env) obj1 of
                              Inl err \<Rightarrow> (build, [Watched obj, PatchedObject obj1], emptyOutput, Some err)
                            | Inr failures \<Rightarrow>
                                (setFailures obj1 failures build, [Watched obj, PatchedObject obj1],
                                 emptyOutput\<lparr>roResult := Some obj1\<rparr>, None))))))"

text \<open>
  \<open>reconcileExternal\<close>. The reference is the one of the Build and is changed in place,
  so the model returns the Build with its reference updated.
\<close>

definition reconcileExternal ::
    "BuildEnv \<Rightarrow> Build \<Rightarrow> ObjectReference \<Rightarrow> Build \<times> Call list \<times> ReconcileOutput \<times> error option" where
  "reconcileExternal env build ref =
     (case UpdateReferenceAPIContract env ref of
        Inl err \<Rightarrow> (build, [FetchedCRD (refGroup ref) (refKind ref)], emptyOutput, Some err)
      | Inr ref1 \<Rightarrow>
          let build1 = build\<lparr>Spec := (Spec build)\<lparr>InfrastructureRef := Some ref1\<rparr>\<rparr>;
              calls = [FetchedCRD (refGroup ref) (refKind ref), FetchedRef ref1]
          in (case ExternalGet (ext env) ref1 (Namespace (Meta build)) of
                Inl err \<Rightarrow>
                  if IsNotFound (Cause err)
                  then (build1, calls, emptyOutput\<lparr>roRequeueAfter := 30 * Second\<rparr>, None)
                  else (build1, calls, emptyOutput, Some err)
              | Inr obj \<Rightarrow>
                  (case adoptExternal env build1 obj of
                     (b, calls1, out, err) \<Rightarrow> (b, calls @ calls1, out, err))))"

subsection \<open>The phases of the forward pipeline\<close>

text \<open>A phase takes the Build and returns it with the calls made, a result and an error.\<close>

type_synonym phase = "Build \<Rightarrow> Build \<times> Call list \<times> Result \<times> error option"

definition boolString :: "bool \<Rightarrow> string" where
  "boolString b = (if b then ''true'' else ''false'')"

definition readyEvent :: "Build \<Rightarrow> string \<Rightarrow> bool \<Rightarrow> Call" where
  "readyEvent build what v =
     Recorded \<lparr>evType = EventTypeNormal, evReason = what,
               evMessage = ''Build '' @ Name (Meta build) @ '' '' @ what @ '' is now '' @ boolString v\<rparr>"

text \<open>
  \<open>reconcileInfrastructure\<close> from the point where the external object is at hand: the
  two readiness flags with their events and mirrored conditions, then the failure domains.
\<close>

definition syncFailureDomains :: "BuildEnv \<Rightarrow> Unstructured \<Rightarrow> Build \<Rightarrow> Call list \<Rightarrow> Build \<times> Call list \<times> Result \<times> error option" where
  "syncFailureDomains env infraConfig build calls =
     (case UnmarshalFailureDomains (ext env) infraConfig of
        Inl err \<Rightarrow>
          if err \<noteq> ErrUnstructuredFieldNotFound
          then (build, calls, emptyResult,
                Some (Wrapf (''failed to retrieve Status.FailureDomains from infrastructure provider for Build '' @
                             quoted (Name (Meta build)) @ '' in namespace '' @ quoted (Namespace (Meta build))) err))
          else (build\<lparr>BStatus := (BStatus build)\<lparr>FailureDomains := []\<rparr>\<rparr>, calls, emptyResult, None)
      | Inr failureDomains \<Rightarrow>
          (build\<lparr>BStatus := (BStatus build)\<lparr>FailureDomains := failureDomains\<rparr>\<rparr>, calls, emptyResult, None))"

definition syncReady :: "BuildEnv \<Rightarrow> Unstructured \<Rightarrow> Build \<Rightarrow> Call list \<Rightarrow> Build \<times> Call list \<times> Result \<times> error option" where
  "syncReady env infraConfig build calls =
     (case IsReady (ext env) infraConfig of
        Inl err \<Rightarrow> (build, calls, emptyResult, Some err)
      | Inr ready \<Rightarrow>
          let preReconcileReady = Ready (BStatus build);
              b1 = build\<lparr>BStatus := (BStatus build)\<lparr>Ready := ready\<rparr>\<rparr>;
              calls1 = calls @ (if preReconcileReady \<noteq> ready then [readyEvent b1 ''Ready'' ready] else []);
              b2 = SetMirror env ReadyCondition infraConfig ready WaitingForInfrastructureFallbackReason
                     ConditionSeverityInfo b1
          in if \<not> ready then (b2, calls1, emptyResult, None)
             else syncFailureDomains env infraConfig b2 calls1)"

definition syncInfrastructure :: "BuildEnv \<Rightarrow> Unstructured \<Rightarrow> Build \<Rightarrow> Call list \<Rightarrow> Build \<times> Call list \<times> Result \<times> error option" where
  "syncInfrastructure env infraConfig build calls =
     (if \<not> Time_IsZero (DeletionTimestamp (uMeta infraConfig)) then (build, calls, emptyResult, None)
      else
        (case IsMachineReady (ext env) infraConfig of
           Inl err \<Rightarrow> (build, calls, emptyResult, Some err)
         | Inr infraReady \<Rightarrow>
             let preReconcileInfrastructureReady = InfrastructureReady (BStatus build);
                 b1 = build\<lparr>BStatus := (BStatus build)\<lparr>InfrastructureReady := infraReady\<rparr>\<rparr>;
                 calls1 = calls @ (if preReconcileInfrastructureReady \<noteq> infraReady
                                   then [readyEvent b1 ''InfrastructureReady'' infraReady] else []);
                 b2 = SetMirror env InfrastructureReadyCondition infraConfig infraReady
                        WaitingForInfrastructureFallbackReason ConditionSeverityInfo b1
             in if \<not> infraReady then (b2, calls1, emptyResult, None)
                else syncReady env infraConfig b2 calls1))"

definition reconcileInfrastructure :: "BuildEnv \<Rightarrow> phase" where
  "reconcileInfrastructure env build =
     (case InfrastructureRef (Spec build) of
        None \<Rightarrow> (build, [], emptyResult, None)
      | Some ref \<Rightarrow>
          (case reconcileExternal env build ref of
             (b, calls, out, Some err) \<Rightarrow> (b, calls, emptyResult, Some err)
           | (b, calls, out, None) \<Rightarrow>
               if roRequeueAfter out > 0 then (b, calls, requeueAfter (roRequeueAfter out), None)
               else if roPaused out then (b, calls, emptyResult, None)
               else (case roResult out of
                       None \<Rightarrow> (b, calls, emptyResult, None)
                     | Some infraConfig \<Rightarrow> syncInfrastructure env infraConfig b calls)))"

definition reconcileConnection :: "BuildEnv \<Rightarrow> phase" where
  "reconcileConnection env build =
     (if \<not> InfrastructureReady (BStatus build) then (build, [], emptyResult, None)
      else if Connected (BStatus build) then (build, [], emptyResult, None)
      else (MarkFalse env BuildInitializedCondition WaitingForConnectionReason ConditionSeverityInfo [] build,
            [], emptyResult, None))"

definition reconcileProvisioners :: "BuildEnv \<Rightarrow> phase" where
  "reconcileProvisioners env build =
     (if \<not> Connected (BStatus build) then (build, [], emptyResult, None)
      else if ProvisionersReady (BStatus build) then (build, [], emptyResult, None)
      else (MarkFalse env ProvisionersReadyCondition WaitingForProvisionersReason ConditionSeverityInfo [] build,
            [], emptyResult, None))"

definition reconcileImageProvided :: "BuildEnv \<Rightarrow> phase" where
  "reconcileImageProvided env build =
     (if \<not> ProvisionersReady (BStatus build) then (build, [], emptyResult, None)
      else if Ready (BStatus build) \<and> conditions_IsTrue build ReadyCondition then (build, [], emptyResult, None)
      else (MarkTrue env BuildInitializedCondition build, [], emptyResult, None))"

subsection \<open>The forward pass: \<open>reconcile\<close>\<close>

text \<open>\<open>Result.IsZero\<close> and \<open>util.LowestNonZeroResult\<close> of the controller libraries.\<close>

definition Result_IsZero :: "Result \<Rightarrow> bool" where
  "Result_IsZero r = (\<not> Requeue r \<and> RequeueAfter r = 0)"

definition LowestNonZeroResult :: "Result \<Rightarrow> Result \<Rightarrow> Result" where
  "LowestNonZeroResult i j =
     (if Result_IsZero i then j
      else if Result_IsZero j then i
      else if Requeue i then i
      else if Requeue j then j
      else if RequeueAfter i < RequeueAfter j then i
      else j)"

text \<open>
  The loop over the phases: every phase is called with the Build as the phases before
  left it; an error is appended; once an error has been seen the result of a phase is no
  longer merged.
\<close>

fun runPhases ::
    "(PhaseName \<times> phase) list \<Rightarrow> Build \<Rightarrow> Call list \<Rightarrow> Result \<Rightarrow> error list \<Rightarrow>
       Build \<times> Call list \<times> Result \<times> error list" where
  "runPhases [] build calls res errs = (build, calls, res, errs)"
| "runPhases ((n, p) # ps) build calls res errs =
     (case p build of
        (b, calls1, phaseResult, err) \<Rightarrow>
          let errs1 = (case err of None \<Rightarrow> errs | Some e \<Rightarrow> errs @ [e]) in
          if errs1 \<noteq> [] then runPhases ps b (calls @ PhaseCalled n # calls1) res errs1
          else runPhases ps b (calls @ PhaseCalled n # calls1) (LowestNonZeroResult res phaseResult) errs1)"

definition phases :: "BuildEnv \<Rightarrow> (PhaseName \<times> phase) list" where
  "phases env =
     [(InfrastructurePhase, reconcileInfrastructure env),
      (ConnectionPhase, reconcileConnection env),
      (ProvisionersPhase, reconcileProvisioners env),
      (ImageProvidedPhase, reconcileImageProvided env)]"

definition reconcile :: "BuildEnv \<Rightarrow> Build \<Rightarrow> Build \<times> Call list \<times> Result \<times> error option" where
  "reconcile env build =
     (case runPhases (phases env) build [] emptyResult [] of
        (b, calls, res, errs) \<Rightarrow> (b, calls, res, NewAggregate errs))"

subsection \<open>Deletion: \<open>reconcileDelete\<close>\<close>

definition deleteRequeueAfter :: int where
  "deleteRequeueAfter = 5 * Second"

record buildDescendants =
  infraBuild :: "Unstructured list"
  provisioners :: "Unstructured list"

definition descendants_length :: "buildDescendants \<Rightarrow> nat" where
  "descendants_length c = length (infraBuild c) + length (provisioners c)"

text \<open>
  \<open>listDescendants\<close> lists the objects of the kind of the infrastructure reference, then,
  for every external provisioner, the objects of the kind of its reference, all in the
  namespace of the Build and with its name label. Both references are read through their
  pointers: a nil reference panics.
\<close>

fun listProvisioners ::
    "BuildEnv \<Rightarrow> Build \<Rightarrow> ProvisionerSpec list \<Rightarrow> Unstructured list \<Rightarrow> Call list \<Rightarrow>
       Call list \<times> (error + Unstructured list) go" where
  "listProvisioners env build [] items calls = (calls, Ret (Inr items))"
| "listProvisioners env build (p # ps) items calls =
     (if Type p = ProvisionerTypeExternal then
        (case Ref p of
           None \<Rightarrow> (calls, Panic)
         | Some ref \<Rightarrow>
             (case ListObjects (store env) (refGVK ref) (Namespace (Meta build)) (Name (Meta build)) of
                Inl err \<Rightarrow>
                  (calls @ [Listed (refGVK ref)],
                   Ret (Inl (Wrapf (''failed to list objects with kind '' @ refKind ref) err)))
              | Inr found \<Rightarrow> listProvisioners env build ps (items @ found) (calls @ [Listed (refGVK ref)])))
      else listProvisioners env build ps items calls)"

definition listDescendants :: "BuildEnv \<Rightarrow> Build \<Rightarrow> Call list \<times> (error + buildDescendants) go" where
  "listDescendants env build =
     (case InfrastructureRef (Spec build) of
        None \<Rightarrow> ([], Panic)
      | Some ref \<Rightarrow>
          (case ListObjects (store env) (refGVK ref) (Namespace (Meta build)) (Name (Meta build)) of
             Inl err \<Rightarrow> ([Listed (refGVK ref)], Ret (Inl (Wrapf (''failed to list objects with kind '' @ refKind ref) err)))
           | Inr infra \<Rightarrow>
               (case listProvisioners env build (Provisioners (Spec build)) [] [Listed (refGVK ref)] of
                  (calls, Panic) \<Rightarrow> (calls, Panic)
                | (calls, Ret (Inl err)) \<Rightarrow> (calls, Ret (Inl err))
                | (calls, Ret (Inr provs)) \<Rightarrow>
                    (calls, Ret (Inr \<lparr>infraBuild = infra, provisioners = provs\<rparr>)))))"

text \<open>\<open>filterOwnedDescendants\<close>: the owned provisioner objects, then the owned infrastructure objects.\<close>

definition filterOwnedDescendants :: "BuildEnv \<Rightarrow> buildDescendants \<Rightarrow> Build \<Rightarrow> Unstructured list" where
  "filterOwnedDescendants env c build =
     filter (\<lambda>obj. IsOwnedByObject (ext env) (uMeta obj) build) (provisioners c @ infraBuild c)"

text \<open>
  The loop over the children: a child that is already being deleted is skipped; a child
  whose kind cannot be determined or whose delete fails adds an error.
\<close>

fun deleteChildren :: "BuildEnv \<Rightarrow> Build \<Rightarrow> Unstructured list \<Rightarrow> Call list \<times> error list" where
  "deleteChildren env build [] = ([], [])"
| "deleteChildren env build (child # children) =
     (case deleteChildren env build children of
        (calls, errs) \<Rightarrow>
          if \<not> Time_IsZero (DeletionTimestamp (uMeta child)) then (calls, errs)
          else (case GVKForObject (store env) child of
                  Inl err \<Rightarrow> (calls, Wrapf ''error getting gvk for child object'' err # errs)
                | Inr gvk \<Rightarrow>
                    (case DeleteObject (store env) child of
                       None \<Rightarrow> (DeletedObject child # calls, errs)
                     | Some err \<Rightarrow>
                         (DeletedObject child # calls,
                          Wrapf (''error deleting cluster '' @ Namespace (Meta build) @ ''/'' @ Name (Meta build) @
                                 '': failed to delete '' @ gvkString gvk @ '' '' @ Name (uMeta child)) err # errs))))"

definition deletedEvent :: "Build \<Rightarrow> Event" where
  "deletedEvent build =
     \<lparr>evType = EventTypeNormal, evReason = ''Deleted'',
      evMessage = ''Build '' @ Name (Meta build) @ '' has been deleted''\<rparr>"

definition finishDelete :: "Build \<Rightarrow> Call list \<Rightarrow> Build \<times> Call list \<times> (Result \<times> error option) go" where
  "finishDelete build calls =
     (RemoveFinalizer BuildFinalizer build, calls @ [Recorded (deletedEvent build)], Ret (emptyResult, None))"

text \<open>
  The end of \<open>reconcileDelete\<close>, reached with no descendant left: the infrastructure
  object is fetched by reference; only when it is gone, or when there is no reference, is
  the finalizer removed.
\<close>

definition deleteInfrastructure :: "BuildEnv \<Rightarrow> Build \<Rightarrow> Call list \<Rightarrow> Build \<times> Call list \<times> (Result \<times> error option) go" where
  "deleteInfrastructure env build calls =
     (case InfrastructureRef (Spec build) of
        None \<Rightarrow> finishDelete build calls
      | Some ref \<Rightarrow>
          (case ExternalGet (ext env) ref (Namespace (Meta build)) of
             Inl err \<Rightarrow>
               if IsNotFound (Cause err)
               then finishDelete
                      (MarkFalse env InfrastructureReadyCondition DeletedReason ConditionSeverityInfo [] build)
                      (calls @ [FetchedRef ref])
               else (build, calls @ [FetchedRef ref],
                     Ret (emptyResult,
                          Some (Wrapf (''failed to get '' @ refGroup ref @ ''/'' @ refVersion ref @ ''/'' @ refKind ref @ '' '' @
                                       quoted (refName ref) @ '' for Build '' @ Namespace (Meta build) @ ''/'' @
                                       Name (Meta build)) err)))
           | Inr obj \<Rightarrow>
               let b1 = SetMirror env InfrastructureReadyCondition obj False DeletingReason ConditionSeverityInfo build in
               (case DeleteObject (store env) obj of
                  Some err \<Rightarrow>
                    (b1, calls @ [FetchedRef ref, DeletedObject obj],
                     Ret (emptyResult,
                          Some (Wrapf (''failed to delete '' @ gvkString (uGVK obj) @ '' '' @ quoted (Name (uMeta obj)) @
                                       '' for Build '' @ quoted (Name (Meta build)) @ '' in namespace '' @
                                       quoted (Namespace (Meta build))) err)))
                | None \<Rightarrow> (b1, calls @ [FetchedRef ref, DeletedObject obj], Ret (emptyResult, None)))))"

definition reconcileDelete :: "BuildEnv \<Rightarrow> Build \<Rightarrow> Build \<times> Call list \<times> (Result \<times> error option) go" where
  "reconcileDelete env build =
     (case listDescendants env build of
        (calls, Panic) \<Rightarrow> (build, calls, Panic)
      | (calls, Ret (Inl err)) \<Rightarrow> (build, calls, Ret (emptyResult, Some err))
      | (calls, Ret (Inr descendants)) \<Rightarrow>
          (case deleteChildren env build (filterOwnedDescendants env descendants build) of
             (calls1, errs) \<Rightarrow>
               if errs \<noteq> [] then (build, calls @ calls1, Ret (emptyResult, NewAggregate errs))
               else if descendants_length descendants > 0
               then (build, calls @ calls1, Ret (requeueAfter deleteRequeueAfter, None))
               else deleteInfrastructure env build (calls @ calls1)))"

subsection \<open>The entry point: \<open>Reconcile\<close>\<close>

text \<open>
  \<open>patchBuild\<close> summarises the conditions and patches the Build; the deferred function of
  \<open>Reconcile\<close> recomputes the phase before, and joins the error of the patch to the error
  of the pass. It also runs when the pass panics.
\<close>

definition patchBuild :: "BuildEnv \<Rightarrow> Build \<Rightarrow> Build \<Rightarrow> bool \<Rightarrow> Build \<times> Call list \<times> error option" where
  "patchBuild env before build observed =
     (let b1 = SetSummary env [ProvisionersReadyCondition, InfrastructureReadyCondition] build
      in (b1, [PatchedBuild b1], PatchBuildObj (store env) before b1 observed))"

definition joinErrors :: "error option \<Rightarrow> error option \<Rightarrow> error option" where
  "joinErrors reterr err =
     (case err of
        None \<Rightarrow> reterr
      | Some e \<Rightarrow> (case reterr of None \<Rightarrow> Some (Aggregate [e]) | Some r \<Rightarrow> Some (Aggregate [r, e])))"

definition deferred ::
    "BuildEnv \<Rightarrow> Build \<Rightarrow> Build \<times> Call list \<times> (Result \<times> error option) go \<Rightarrow>
       Build \<times> Call list \<times> (Result \<times> error option) go" where
  "deferred env before pass =
     (case pass of (build, calls, outcome) \<Rightarrow>
        (case reconcilePhase build of
           (b1, events) \<Rightarrow>
             let reterr = (case outcome of Panic \<Rightarrow> None | Ret (res, err) \<Rightarrow> err) in
             (case patchBuild env before b1 (reterr = None) of
                (b2, calls1, perr) \<Rightarrow>
                  (b2, calls @ map Recorded events @ calls1,
                   case outcome of
                     Panic \<Rightarrow> Panic
                   | Ret (res, err) \<Rightarrow> Ret (res, joinErrors err perr)))))"

definition liftPass :: "Build \<times> Call list \<times> Result \<times> error option \<Rightarrow> Build \<times> Call list \<times> (Result \<times> error option) go" where
  "liftPass pass = (case pass of (b, calls, res, err) \<Rightarrow> (b, calls, Ret (res, err)))"

definition Reconcile_Build ::
    "BuildEnv \<Rightarrow> string \<Rightarrow> string \<Rightarrow> Build option \<times> Call list \<times> (Result \<times> error option) go" where
  "Reconcile_Build env namespace name =
     (case GetBuildObj (store env) namespace name of
        Inl err \<Rightarrow>
          if IsNotFound err then (None, [], Ret (emptyResult, None))
          else (None, [], Ret (emptyResult, Some err))
      | Inr build \<Rightarrow>
          if IsPaused build (Meta build) then (Some build, [], Ret (emptyResult, None))
          else
            (case NewPatchHelper (store env) build of
               Some err \<Rightarrow> (Some build, [], Ret (emptyResult, Some err))
             | None \<Rightarrow>
                 (case deferred env build
                         (if \<not> Time_IsZero (DeletionTimestamp (Meta build)) then reconcileDelete env build
                          else if \<not> ContainsFinalizer build BuildFinalizer
                          then (AddFinalizer BuildFinalizer build, [], Ret (emptyResult, None))
                          else liftPass (reconcile env build)) of
                    (b, calls, outcome) \<Rightarrow> (Some b, calls, outcome))))"

section \<open>Concrete objects used in the examples\<close>

definition crdMetadata :: "string \<Rightarrow> ObjectMeta" where
  "crdMetadata label =
     \<lparr>Name = ''testinfras.infrastructure.forge.build'', Namespace = [], DeletionTimestamp = None,
      Finalizers = [], Annotations = None,
      Labels = Some [''forge.build/v1alpha1'' \<mapsto> label], OwnerReferences = []\<rparr>"

definition exampleMeta :: ObjectMeta where
  "exampleMeta =
     \<lparr>Name = ''img'', Namespace = ''default'', DeletionTimestamp = None,
      Finalizers = [BuildFinalizer], Annotations = None, Labels = None, OwnerReferences = []\<rparr>"

definition exampleRef :: ObjectReference where
  "exampleRef =
     \<lparr>refGroup = ''infrastructure.forge.build'', refVersion = ''v1alpha1'', refKind = ''TestInfra'',
      refNamespace = [], refName = ''x''\<rparr>"

definition exampleSpec :: BuildSpec where
  "exampleSpec =
     \<lparr>Paused = False, Connector = \<lparr>ConnectorType = ''ssh'', Credentials = Some ''creds''\<rparr>,
      InfrastructureRef = Some exampleRef, Provisioners = [], DeleteCascade = False\<rparr>"

definition exampleStatus :: BuildStatus where
  "exampleStatus =
     \<lparr>FailureDomains = [], StatusFailureReason = None, StatusFailureMessage = None,
      Conditions = [], InfrastructureReady = True, Connected = False, ProvisionersReady = False,
      Phase = ''Pending'', Ready = False\<rparr>"

definition exampleBuild :: Build where
  "exampleBuild = \<lparr>Meta = exampleMeta, Spec = exampleSpec, BStatus = exampleStatus\<rparr>"

definition exampleProvisioner :: ProvisionerSpec where
  "exampleProvisioner =
     \<lparr>UUID = Some ''u-1'', Type = ProvisionerTypeShell, AllowFail = False, Run = Some ''echo hi'',
      RunConfigMapRef = None, Ref = None, Retries = Some 2, Status = Some ProvisionerStatusFailed,
      FailureReason = Some ''Error'', FailureMessage = Some ''boom''\<rparr>"

definition exampleShellEnv :: ShellEnv where
  "exampleShellEnv =
     \<lparr>newUUID = ''u-2'', ComputeHash = (\<lambda>s. s), CreateOrPatch = (\<lambda>j. Inr OperationResultCreated)\<rparr>"

definition exampleRunning :: ProvisionerSpec where
  "exampleRunning =
     exampleProvisioner\<lparr>Status := Some ProvisionerStatusRunning, FailureReason := None, FailureMessage := None\<rparr>"

definition exampleBuildWith :: "ProvisionerSpec \<Rightarrow> Build" where
  "exampleBuildWith p = exampleBuild\<lparr>Spec := exampleSpec\<lparr>Provisioners := [p]\<rparr>\<rparr>"

definition exampleJob :: "JobConditionType list \<Rightarrow> Job" where
  "exampleJob conds =
     \<lparr>jobMeta =
        \<lparr>Name = ''job-1'', Namespace = ''forge-core'', DeletionTimestamp = None, Finalizers = [],
         Annotations = Some Map.empty,
         Labels = Some [ManagedByLabel \<mapsto> ''forge-provisioner-shell'', BuildNameLabel \<mapsto> ''img'',
                        ProvisionerIDLabel \<mapsto> ''u-1'', BuildNamespaceLabel \<mapsto> ''default''],
         OwnerReferences = []\<rparr>,
      jobSelector = Some [''batch.kubernetes.io/controller-uid'' \<mapsto> ''c0ffee''],
      jobBackoffLimit = 2,
      jobArgs = [],
      jobImage = ''ghcr.io/forge-build/forge-provisioner-shell:dev'',
      jobConditions = conds\<rparr>"

definition examplePod :: Pod where
  "examplePod =
     \<lparr>InitContainerStatuses = [],
      ContainerStatuses =
        [\<lparr>csName = ''shell-provisioner'',
          csTerminated = Some \<lparr>ExitCode = 1, Reason = ''Error'', Message = ''boom''\<rparr>\<rparr>]\<rparr>"

definition exampleObserverEnv :: "JobConditionType list \<Rightarrow> ObserverEnv" where
  "exampleObserverEnv conds =
     \<lparr>GetJob = (\<lambda>ns n. Inr (exampleJob conds)),
      GetBuild = (\<lambda>ns n. Inr (exampleBuildWith exampleRunning)),
      NewHelper = (\<lambda>b. None),
      PatchBuild = (\<lambda>b. None),
      DeleteJob = (\<lambda>j. None),
      ClientsetGetJob = (\<lambda>ns n. Inr (exampleJob conds)),
      ListPods = (\<lambda>ns selector. Inr [examplePod])\<rparr>"

section \<open>Theorems\<close>

lemma SetTypedPhase_fields [simp]:
  "Meta (SetTypedPhase p b) = Meta b"
  "Spec (SetTypedPhase p b) = Spec b"
  "Phase (BStatus (SetTypedPhase p b)) = phaseString p"
  "Ready (BStatus (SetTypedPhase p b)) = Ready (BStatus b)"
  "InfrastructureReady (BStatus (SetTypedPhase p b)) = InfrastructureReady (BStatus b)"
  "StatusFailureReason (BStatus (SetTypedPhase p b)) = StatusFailureReason (BStatus b)"
  "StatusFailureMessage (BStatus (SetTypedPhase p b)) = StatusFailureMessage (BStatus b)"
  "Conditions (BStatus (SetTypedPhase p b)) = Conditions (BStatus b)"
  by (simp_all add: SetTypedPhase_def)

lemma SetTypedPhase_twice [simp]:
  "SetTypedPhase p (SetTypedPhase q b) = SetTypedPhase p b"
  by (simp add: SetTypedPhase_def)

text \<open>
  C1. \<open>reconcilePhase\<close> recomputes \<open>status.phase\<close> in a fixed order. An empty phase
  becomes Pending and nothing else is looked at. Otherwise the phase is Building when the
  infrastructure reference is set and the InfrastructureReady condition is present, or when
  \<open>status.infrastructureReady\<close> is true; a failure reason or message overrides that with
  Failed; a non-zero deletion timestamp overrides that with Terminating; and
  \<open>status.ready\<close> overrides all of them with Completed. When no guard holds the phase is
  left as it was, and nothing but the phase is changed.
\<close>

theorem reconcilePhase_projection:
  "fst (reconcilePhase build) =
     (if Phase (BStatus build) = [] then SetTypedPhase BuildPhasePending build
      else if Ready (BStatus build) then SetTypedPhase BuildPhaseCompleted build
      else if \<not> Time_IsZero (DeletionTimestamp (Meta build)) then SetTypedPhase BuildPhaseTerminating build
      else if StatusFailureReason (BStatus build) \<noteq> None \<or> StatusFailureMessage (BStatus build) \<noteq> None
        then SetTypedPhase BuildPhaseFailed build
      else if (InfrastructureRef (Spec build) \<noteq> None \<and> conditions_Has build InfrastructureReadyCondition)
              \<or> InfrastructureReady (BStatus build)
        then SetTypedPhase BuildPhaseBuilding build
      else build)"
  by (simp add: reconcilePhase_def Let_def)

theorem reconcilePhase_projection_witness:
  "Phase (BStatus (fst (reconcilePhase exampleBuild))) = ''Building''
   \<and> Phase (BStatus (fst (reconcilePhase (exampleBuild\<lparr>BStatus := exampleStatus\<lparr>Ready := True\<rparr>\<rparr>)))) = ''Completed''
   \<and> Phase (BStatus (fst (reconcilePhase (exampleBuild\<lparr>BStatus := exampleStatus\<lparr>Phase := []\<rparr>\<rparr>)))) = ''Pending''"
  using reconcilePhase_projection [of exampleBuild]
    reconcilePhase_projection [of "exampleBuild\<lparr>BStatus := exampleStatus\<lparr>Ready := True\<rparr>\<rparr>"]
    reconcilePhase_projection [of "exampleBuild\<lparr>BStatus := exampleStatus\<lparr>Phase := []\<rparr>\<rparr>"]
  by (simp add: exampleBuild_def exampleStatus_def exampleMeta_def exampleSpec_def Time_IsZero_def)

text \<open>
  C10. The pause check looks at the presence of the annotation, not at its value:
  \<open>IsPaused build obj\<close> holds exactly when \<open>build.Spec.Paused\<close> is true or the object has
  an annotation map with the paused key bound to some value. An object whose paused
  annotation is the string "false" therefore counts as paused.
\<close>

theorem IsPaused_presence_based:
  "IsPaused build obj =
     (Paused (Spec build) \<or> (\<exists>m v. Annotations obj = Some m \<and> m PausedAnnotation = Some v))
   \<and> IsPaused build (obj\<lparr>Annotations := Some (m(PausedAnnotation \<mapsto> ''false''))\<rparr>)"
  by (auto simp: IsPaused_def HasPaused_def hasAnnotation_def split: option.splits)

theorem IsPaused_presence_based_witness:
  "IsPaused exampleBuild (exampleMeta\<lparr>Annotations := Some [PausedAnnotation \<mapsto> ''false'']\<rparr>)
   \<and> \<not> IsPaused exampleBuild exampleMeta"
  using IsPaused_presence_based [of exampleBuild exampleMeta Map.empty]
    IsPaused_presence_based [of exampleBuild "exampleMeta\<lparr>Annotations := Some [PausedAnnotation \<mapsto> ''false'']\<rparr>" Map.empty]
  by (simp add: exampleBuild_def exampleSpec_def exampleMeta_def)

subsection \<open>Version ordering\<close>

lemma stringsCompare_less: "stringsCompare x y < 0 \<longleftrightarrow> (map of_char x :: int list) < map of_char y"
  by (induction x y rule: stringsCompare.induct) auto

lemma stringsCompare_refl: "stringsCompare x x = 0"
  by (induction x) auto

lemma versionTypeInt_inj: "versionTypeInt a = versionTypeInt b \<longleftrightarrow> a = b"
  by (cases a; cases b) auto

lemma Less_char:
  "Less a b \<longleftrightarrow>
     (case (versionKey a, versionKey b) of
        (None, None) \<Rightarrow> (map of_char b :: int list) < map of_char a
      | (None, Some q) \<Rightarrow> True
      | (Some p, None) \<Rightarrow> False
      | (Some p, Some q) \<Rightarrow> tripleLess p q)"
proof (cases "a = b")
  case True
  then show ?thesis
    by (auto simp: Less_def CompareKubeAwareVersionStrings_def versionKey_def tripleLess_def
        split: option.splits)
next
  case False
  then show ?thesis
    by (auto simp: Less_def CompareKubeAwareVersionStrings_def versionKey_def tripleLess_def
        stringsCompare_less versionTypeInt_inj split: option.splits)
qed


lemma tripleLess_asym: "tripleLess p q \<Longrightarrow> \<not> tripleLess q p"
  by (cases p; cases q) (auto simp: tripleLess_def)

lemma tripleLess_negtrans: "\<not> tripleLess p q \<Longrightarrow> \<not> tripleLess q r \<Longrightarrow> \<not> tripleLess p r"
  by (cases p; cases q; cases r) (auto simp: tripleLess_def)

lemma Less_asym: "Less a b \<Longrightarrow> \<not> Less b a"
proof -
  assume l: "Less a b"
  show ?thesis
  proof (cases "versionKey a")
    case None
    note na = this
    show ?thesis
    proof (cases "versionKey b")
      case None
      then show ?thesis using l na by (simp add: Less_char)
    next
      case (Some q)
      then show ?thesis using l na by (simp add: Less_char)
    qed
  next
    case (Some p)
    note sa = this
    show ?thesis
    proof (cases "versionKey b")
      case None
      then show ?thesis using l sa by (simp add: Less_char)
    next
      case (Some q)
      then show ?thesis using l sa tripleLess_asym by (simp add: Less_char)
    qed
  qed
qed

lemma Less_negtrans: "\<not> Less a b \<Longrightarrow> \<not> Less b c \<Longrightarrow> \<not> Less a c"
proof -
  assume ab: "\<not> Less a b" and bc: "\<not> Less b c"
  show ?thesis
  proof (cases "versionKey a")
    case None
    note na = this
    then have nb: "versionKey b = None"
      using ab by (cases "versionKey b") (simp_all add: Less_char)
    then have nc: "versionKey c = None"
      using bc by (cases "versionKey c") (simp_all add: Less_char)
    have "\<not> (map of_char b :: int list) < map of_char a" using ab na nb by (simp add: Less_char)
    moreover have "\<not> (map of_char c :: int list) < map of_char b" using bc nb nc by (simp add: Less_char)
    ultimately have "\<not> (map of_char c :: int list) < map of_char a" by simp
    then show ?thesis using na nc by (simp add: Less_char)
  next
    case (Some p)
    note sa = this
    show ?thesis
    proof (cases "versionKey c")
      case None
      then show ?thesis using sa by (simp add: Less_char)
    next
      case (Some r)
      note sc = this
      show ?thesis
      proof (cases "versionKey b")
        case None
        then show ?thesis using bc sc by (simp add: Less_char)
      next
        case (Some q)
        then show ?thesis using ab bc sa sc tripleLess_negtrans by (simp add: Less_char)
      qed
    qed
  qed
qed


lemma set_insertBack: "set (insertBack lt x ys) = insert x (set ys)"
  by (induction ys) auto

lemma insertBack_ne: "insertBack lt x ys \<noteq> []"
  by (cases ys) auto

lemma insertBack_max:
  assumes "\<forall>y \<in> set (m # ms). \<not> Less m y"
  shows "\<forall>y \<in> set (insertBack Less x (m # ms)). \<not> Less (hd (insertBack Less x (m # ms))) y"
proof (cases "Less x m")
  case True
  then have "\<not> Less m x" by (rule Less_asym)
  then show ?thesis using True assms by (simp add: set_insertBack)
next
  case False
  have xx: "\<not> Less x x" using Less_asym by blast
  have "\<forall>y \<in> set (m # ms). \<not> Less x y"
    using False assms Less_negtrans by blast
  then show ?thesis using False xx by simp
qed

lemma foldl_insertBack_max:
  assumes "acc \<noteq> []" "\<forall>y \<in> set acc. \<not> Less (hd acc) y"
  shows "\<forall>y \<in> set (foldl (\<lambda>acc x. insertBack Less x acc) acc xs).
           \<not> Less (hd (foldl (\<lambda>acc x. insertBack Less x acc) acc xs)) y"
  using assms
proof (induction xs arbitrary: acc)
  case Nil
  then show ?case by simp
next
  case (Cons x xs)
  obtain m ms where acc: "acc = m # ms" using Cons.prems(1) by (cases acc) auto
  have "\<forall>y \<in> set (insertBack Less x acc). \<not> Less (hd (insertBack Less x acc)) y"
    unfolding acc by (rule insertBack_max) (use Cons.prems(2) acc in simp)
  then show ?case
    using Cons.IH[of "insertBack Less x acc"] insertBack_ne[of Less x acc] by simp
qed

lemma set_foldl_insertBack:
  "set (foldl (\<lambda>acc x. insertBack lt x acc) acc xs) = set acc \<union> set xs"
  by (induction xs arbitrary: acc) (auto simp: set_insertBack)

lemma last_insertionSort_max:
  assumes "xs \<noteq> []"
  shows "last (insertionSort Less xs) \<in> set xs \<and> (\<forall>y \<in> set xs. \<not> Less (last (insertionSort Less xs)) y)"
proof -
  obtain x xs' where xs: "xs = x # xs'" using assms by (cases xs) auto
  let ?r = "foldl (\<lambda>acc x. insertBack Less x acc) [] xs"
  have s: "set ?r = set xs" by (simp add: set_foldl_insertBack)
  then have ne: "?r \<noteq> []" using assms by auto
  have l: "last (insertionSort Less xs) = hd ?r"
    using ne by (simp add: insertionSort_def last_rev)
  have xx: "\<not> Less x x" using Less_asym by blast
  have "\<forall>y \<in> set (foldl (\<lambda>acc x. insertBack Less x acc) [x] xs').
          \<not> Less (hd (foldl (\<lambda>acc x. insertBack Less x acc) [x] xs')) y"
    by (rule foldl_insertBack_max) (use xx in simp_all)
  then have m: "\<forall>y \<in> set ?r. \<not> Less (hd ?r) y" by (simp add: xs)
  have "hd ?r \<in> set ?r" using ne by simp
  then show ?thesis using l m s by simp
qed

lemma stringsSplit_ne: "stringsSplit sep s \<noteq> []"
  by (induction s) (auto split: list.splits)


lemma Less_parsed:
  assumes "parseKubeVersion a = Some (M1, T1, m1)" "parseKubeVersion b = Some (M2, T2, m2)"
  shows "Less a b \<longleftrightarrow>
           versionTypeInt T1 < versionTypeInt T2 \<or> (T1 = T2 \<and> (M1 < M2 \<or> (M1 = M2 \<and> m1 < m2)))"
  using assms by (auto simp: Less_char versionKey_def tripleLess_def versionTypeInt_inj)

lemma getLatest_missing:
  assumes "Labels md = None \<or> (\<exists>labels. Labels md = Some labels \<and> (labels contract = None \<or> labels contract = Some []))"
  shows "getLatestAPIVersionFromContract contract md = Inl (noVersionsError contract md)"
  using assms by (auto simp: getLatestAPIVersionFromContract_def)

lemma getLatest_present:
  assumes "Labels md = Some labels" "labels contract = Some s" "s \<noteq> []"
  shows "getLatestAPIVersionFromContract contract md = Inr (last (insertionSort Less (stringsSplit CHR ''_'' s)))"
  using assms by (simp add: getLatestAPIVersionFromContract_def)

lemmas version_eval =
  insertionSort_def Less_def CompareKubeAwareVersionStrings_def parseKubeVersion_def
  parseMinor_def stripPrefix_def Atoi_def digitsValue_def isDigit_def

text \<open>
  C4. Version resolution reads the contract label of the referenced type's registration
  metadata. A missing label map, a missing label or an empty label is an error and no
  version is returned. Otherwise the label is split at underscores and sorted with the
  version ordering of the cluster, and the result is an element of the list that no element
  exceeds. On well-formed versions the ordering compares the stability first (alpha below
  beta below GA), then the major number, then the minor number. The label
  "v1alpha1_v1beta1_v1" resolves to "v1" and "v1alpha2_v1alpha1" to "v1alpha2".
\<close>

theorem getLatestAPIVersionFromContract_latest:
  "((Labels md = None \<or> (\<exists>labels. Labels md = Some labels \<and>
        (labels contract = None \<or> labels contract = Some []))) \<longrightarrow>
      (\<exists>e. getLatestAPIVersionFromContract contract md = Inl e))
   \<and> (Labels md = Some labels \<and> labels contract = Some s \<and> s \<noteq> [] \<longrightarrow>
      (\<exists>v. getLatestAPIVersionFromContract contract md = Inr v
           \<and> v \<in> set (stringsSplit CHR ''_'' s)
           \<and> (\<forall>y \<in> set (stringsSplit CHR ''_'' s). 0 \<le> CompareKubeAwareVersionStrings v y)))
   \<and> (Labels md = Some labels \<and> labels contract = Some ''v1alpha1_v1beta1_v1'' \<longrightarrow>
      getLatestAPIVersionFromContract contract md = Inr ''v1'')
   \<and> (Labels md = Some labels \<and> labels contract = Some ''v1alpha2_v1alpha1'' \<longrightarrow>
      getLatestAPIVersionFromContract contract md = Inr ''v1alpha2'')
   \<and> (parseKubeVersion a = Some (M1, T1, m1) \<and> parseKubeVersion b = Some (M2, T2, m2) \<longrightarrow>
      (CompareKubeAwareVersionStrings a b < 0) =
        (versionTypeInt T1 < versionTypeInt T2 \<or> (T1 = T2 \<and> (M1 < M2 \<or> (M1 = M2 \<and> m1 < m2)))))"
proof (intro conjI impI)
  assume "Labels md = None \<or> (\<exists>labels. Labels md = Some labels \<and>
        (labels contract = None \<or> labels contract = Some []))"
  then show "\<exists>e. getLatestAPIVersionFromContract contract md = Inl e"
    using getLatest_missing by blast
next
  assume h: "Labels md = Some labels \<and> labels contract = Some s \<and> s \<noteq> []"
  let ?xs = "stringsSplit CHR ''_'' s"
  have r: "getLatestAPIVersionFromContract contract md = Inr (last (insertionSort Less ?xs))"
    using h getLatest_present by blast
  have "last (insertionSort Less ?xs) \<in> set ?xs \<and>
        (\<forall>y \<in> set ?xs. \<not> Less (last (insertionSort Less ?xs)) y)"
    by (rule last_insertionSort_max) (rule stringsSplit_ne)
  then show "\<exists>v. getLatestAPIVersionFromContract contract md = Inr v
           \<and> v \<in> set ?xs \<and> (\<forall>y \<in> set ?xs. 0 \<le> CompareKubeAwareVersionStrings v y)"
    using r by (simp add: Less_def not_less)
next
  assume "Labels md = Some labels \<and> labels contract = Some ''v1alpha1_v1beta1_v1''"
  then have "getLatestAPIVersionFromContract contract md =
      Inr (last (insertionSort Less (stringsSplit CHR ''_'' ''v1alpha1_v1beta1_v1'')))"
    by (simp add: getLatest_present)
  then show "getLatestAPIVersionFromContract contract md = Inr ''v1''"
    by (simp add: version_eval)
next
  assume "Labels md = Some labels \<and> labels contract = Some ''v1alpha2_v1alpha1''"
  then have "getLatestAPIVersionFromContract contract md =
      Inr (last (insertionSort Less (stringsSplit CHR ''_'' ''v1alpha2_v1alpha1'')))"
    by (simp add: getLatest_present)
  then show "getLatestAPIVersionFromContract contract md = Inr ''v1alpha2''"
    by (simp add: version_eval)
next
  assume "parseKubeVersion a = Some (M1, T1, m1) \<and> parseKubeVersion b = Some (M2, T2, m2)"
  then show "(CompareKubeAwareVersionStrings a b < 0) =
        (versionTypeInt T1 < versionTypeInt T2 \<or> (T1 = T2 \<and> (M1 < M2 \<or> (M1 = M2 \<and> m1 < m2))))"
    using Less_parsed[of a M1 T1 m1 b M2 T2 m2] by (simp add: Less_def)
qed

theorem getLatestAPIVersionFromContract_latest_witness:
  "getLatestAPIVersionFromContract ''forge.build/v1alpha1'' (crdMetadata ''v1alpha1_v1beta1_v1'') = Inr ''v1''
   \<and> 0 \<le> CompareKubeAwareVersionStrings ''v1'' ''v1beta1''
   \<and> CompareKubeAwareVersionStrings ''v1alpha1'' ''v1beta1'' < 0
   \<and> (\<exists>e. getLatestAPIVersionFromContract ''forge.build/v1alpha1'' (crdMetadata []) = Inl e)"
  using getLatestAPIVersionFromContract_latest
    [where md = "crdMetadata ''v1alpha1_v1beta1_v1''" and contract = "''forge.build/v1alpha1''"
       and labels = "[''forge.build/v1alpha1'' \<mapsto> ''v1alpha1_v1beta1_v1'']"
       and s = "''v1alpha1_v1beta1_v1''" and a = "''v1alpha1''" and b = "''v1beta1''"
       and ?M1.0 = 1 and ?T1.0 = versionTypeAlpha and ?m1.0 = 1
       and ?M2.0 = 1 and ?T2.0 = versionTypeBeta and ?m2.0 = 1]
    getLatestAPIVersionFromContract_latest
    [where md = "crdMetadata []" and contract = "''forge.build/v1alpha1''"]
  by (simp add: crdMetadata_def version_eval)
subsection \<open>The shell provisioner\<close>

lemma reconcileStatus_allowFail:
  "Status spec = Some ProvisionerStatusFailed \<Longrightarrow> AllowFail spec \<Longrightarrow>
     reconcileStatus build spec = (build, spec, Ret (emptyResult, None))"
  by (simp add: reconcileStatus_def)

lemma reconcileStatus_build_allowFail:
  "AllowFail spec \<Longrightarrow> fst (reconcileStatus build spec) = build"
  by (auto simp: reconcileStatus_def split: option.splits ProvisionerStatus.splits)

lemma Reconcile_build_allowFail:
  "AllowFail spec \<Longrightarrow> fst (Reconcile env mb build spec) = build"
  using reconcileStatus_build_allowFail[of spec build]
    reconcileStatus_build_allowFail[of "spec\<lparr>UUID := Some (newUUID env), Status := Some ProvisionerStatusRunning\<rparr>" build]
  by (auto simp: Reconcile_def Let_def split: option.splits sum.splits prod.splits)

text \<open>
  C6. A provisioner whose status is Failed and whose \<open>allowFail\<close> is set leaves the Build
  as it was: \<open>Reconcile\<close> changes neither \<open>status.failureReason\<close> nor
  \<open>status.failureMessage\<close>, and with its UUID present it returns an empty result and no
  error. A Failed provisioner without \<open>allowFail\<close>, with its UUID and the captured reason
  and message present, sets \<open>status.failureReason\<close> to ProvisionerFailed and
  \<open>status.failureMessage\<close> to a text that embeds the UUID, the reason and the message.
\<close>

theorem Reconcile_failed_provisioner:
  "(Status spec = Some ProvisionerStatusFailed \<and> AllowFail spec \<longrightarrow>
      fst (Reconcile env managedBy build spec) = build
      \<and> (UUID spec \<noteq> None \<longrightarrow>
           Reconcile env managedBy build spec = (build, spec, [], Ret (emptyResult, None))))
   \<and> (Status spec = Some ProvisionerStatusFailed \<and> \<not> AllowFail spec \<and> UUID spec = Some u
        \<and> FailureReason spec = Some r \<and> FailureMessage spec = Some m \<longrightarrow>
      Reconcile env managedBy build spec =
        (build\<lparr>BStatus := (BStatus build)
                  \<lparr>StatusFailureReason := Some ProvisionerFailedError,
                   StatusFailureMessage :=
                     Some (''Provisioner '' @ u @ '' failed with Reason '' @ r @ '' and Message '' @ m)\<rparr>\<rparr>,
         spec, [], Ret (emptyResult, None)))"
proof (intro conjI impI)
  assume "Status spec = Some ProvisionerStatusFailed \<and> AllowFail spec"
  then show "fst (Reconcile env managedBy build spec) = build"
    by (simp add: Reconcile_build_allowFail)
next
  assume a: "Status spec = Some ProvisionerStatusFailed \<and> AllowFail spec" and "UUID spec \<noteq> None"
  then obtain u' where "UUID spec = Some u'" by auto
  then show "Reconcile env managedBy build spec = (build, spec, [], Ret (emptyResult, None))"
    using a by (simp add: Reconcile_def reconcileStatus_allowFail)
next
  assume "Status spec = Some ProvisionerStatusFailed \<and> \<not> AllowFail spec \<and> UUID spec = Some u
        \<and> FailureReason spec = Some r \<and> FailureMessage spec = Some m"
  then show "Reconcile env managedBy build spec =
        (build\<lparr>BStatus := (BStatus build)
                  \<lparr>StatusFailureReason := Some ProvisionerFailedError,
                   StatusFailureMessage :=
                     Some (''Provisioner '' @ u @ '' failed with Reason '' @ r @ '' and Message '' @ m)\<rparr>\<rparr>,
         spec, [], Ret (emptyResult, None))"
    by (simp add: Reconcile_def reconcileStatus_def Let_def)
qed

theorem Reconcile_failed_provisioner_witness:
  "Reconcile exampleShellEnv ''forge-provisioner-shell'' exampleBuild (exampleProvisioner\<lparr>AllowFail := True\<rparr>) =
     (exampleBuild, exampleProvisioner\<lparr>AllowFail := True\<rparr>, [], Ret (emptyResult, None))
   \<and> StatusFailureReason (BStatus (fst (Reconcile exampleShellEnv ''forge-provisioner-shell'' exampleBuild exampleProvisioner))) =
        Some ''ProvisionerFailed''
   \<and> StatusFailureMessage (BStatus (fst (Reconcile exampleShellEnv ''forge-provisioner-shell'' exampleBuild exampleProvisioner))) =
        Some ''Provisioner u-1 failed with Reason Error and Message boom''"
  using Reconcile_failed_provisioner
      [of "exampleProvisioner\<lparr>AllowFail := True\<rparr>" exampleShellEnv "''forge-provisioner-shell''" exampleBuild]
    Reconcile_failed_provisioner
      [of exampleProvisioner exampleShellEnv "''forge-provisioner-shell''" exampleBuild "''u-1''" "''Error''" "''boom''"]
  by (simp add: exampleProvisioner_def ProvisionerFailedError_def)

subsection \<open>The Job observer\<close>

lemma findProvisioner_Some:
  "findProvisioner ps ident = Some i \<Longrightarrow>
     i < length ps \<and> (case UUID (ps ! i) of None \<Rightarrow> [] | Some u \<Rightarrow> u) = ident"
proof (induction ps arbitrary: i)
  case Nil
  then show ?case by simp
next
  case (Cons p ps)
  show ?case
  proof (cases "(case UUID p of None \<Rightarrow> [] | Some u \<Rightarrow> u) = ident")
    case True
    then show ?thesis using Cons.prems by auto
  next
    case False
    then obtain j where j: "findProvisioner ps ident = Some j" "i = Suc j"
      using Cons.prems by auto
    then show ?thesis using Cons.IH[of j] by simp
  qed
qed

lemma foldl_addTerminated_none:
  "filter (\<lambda>c. csTerminated c \<noteq> None) cs = [] \<Longrightarrow> foldl addTerminated acc cs = acc"
  by (induction cs arbitrary: acc) (auto simp: addTerminated_def split: if_splits)

lemma foldl_addTerminated_one:
  "filter (\<lambda>c. csTerminated c \<noteq> None) cs = [c0] \<Longrightarrow> csTerminated c0 = Some t \<Longrightarrow>
     foldl addTerminated acc cs = mapPut (csName c0) t acc"
proof (induction cs arbitrary: acc)
  case Nil
  then show ?case by simp
next
  case (Cons c cs)
  show ?case
  proof (cases "csTerminated c")
    case None
    then show ?thesis using Cons by (simp add: addTerminated_def)
  next
    case (Some t')
    then have c: "c = c0" and r: "filter (\<lambda>c. csTerminated c \<noteq> None) cs = []"
      using Cons.prems(1) by auto
    have "addTerminated acc c = mapPut (csName c0) t acc"
      using c Cons.prems(2) by (simp add: addTerminated_def)
    then have "foldl addTerminated acc (c # cs) = foldl addTerminated (mapPut (csName c0) t acc) cs"
      by simp
    also have "\<dots> = mapPut (csName c0) t acc"
      by (rule foldl_addTerminated_none[OF r])
    finally show ?thesis .
  qed
qed

lemma ByPod_one:
  assumes "filter (\<lambda>c. csTerminated c \<noteq> None) (InitContainerStatuses pod @ ContainerStatuses pod) = [c0]"
    and "csTerminated c0 = Some t"
  shows "GetTerminatedContainersStatusesByPod (Some pod) = [(csName c0, t)]"
proof -
  have "GetTerminatedContainersStatusesByPod (Some pod) =
          foldl addTerminated [] (InitContainerStatuses pod @ ContainerStatuses pod)"
    by (simp add: GetTerminatedContainersStatusesByPod_def)
  then show ?thesis using foldl_addTerminated_one[OF assms, of "[]"] by simp
qed

lemma updateProvisioner_twice:
  "i < length (Provisioners (Spec build)) \<Longrightarrow>
     updateProvisioner i f (updateProvisioner i g build) = updateProvisioner i (f \<circ> g) build"
  by (simp add: updateProvisioner_def)

lemma processFailedScanJob_one:
  assumes pod: "getPodByJob env job = Ret (Inr (Some pod))"
    and one: "filter (\<lambda>c. csTerminated c \<noteq> None) (InitContainerStatuses pod @ ContainerStatuses pod) = [c0]"
    and t: "csTerminated c0 = Some \<lparr>ExitCode = 1, Reason = ''Error'', Message = ''boom''\<rparr>"
    and i: "findProvisioner (Provisioners (Spec build)) provisionerID = Some i"
  shows "processFailedScanJob env job build provisionerID =
     ([LogInfo ''Job failed'',
       LogError (Errorf ''shell job failed'') ''shelljob failed with reason: Error and message: boom'']
      @ patchLogged env
          (updateProvisioner i (\<lambda>p. p\<lparr>FailureReason := Some ''Error'', FailureMessage := Some ''boom'',
                                        Status := Some ProvisionerStatusFailed\<rparr>) build)
      @ [LogInfo ''Deleting failed scan job'', Deleted job],
      Ret (snd (deleteJob env job)))"
proof -
  have st: "GetTerminatedContainersStatusesByJob env job =
      ([], Ret ([(csName c0, \<lparr>ExitCode = 1, Reason = ''Error'', Message = ''boom''\<rparr>)], None))"
    using pod ByPod_one[OF one t] by (simp add: GetTerminatedContainersStatusesByJob_def)
  have il: "i < length (Provisioners (Spec build))"
    using findProvisioner_Some[OF i] by simp
  have g: "GetProvisionerByID build provisionerID = Inr i"
    using i by (simp add: GetProvisionerByID_def)
  have u: "updateProvisioner i (\<lambda>p. p\<lparr>Status := Some ProvisionerStatusFailed\<rparr>)
             (updateProvisioner i (\<lambda>p. p\<lparr>FailureReason := Some ''Error'', FailureMessage := Some ''boom''\<rparr>) build)
           = updateProvisioner i (\<lambda>p. p\<lparr>FailureReason := Some ''Error'', FailureMessage := Some ''boom'',
                                        Status := Some ProvisionerStatusFailed\<rparr>) build"
    using il by (simp add: updateProvisioner_twice comp_def)
  show ?thesis
    unfolding processFailedScanJob_def st g
    by (simp add: recordFailure_def Let_def u deleteJob_def)
qed

lemma reconcileJobs_failed:
  assumes "GetJob env namespace name = Inr job"
    and "jobConditions job = JobFailed # others"
    and "GetBuild env (jobLabel job BuildNamespaceLabel) (jobLabel job BuildNameLabel) = Inr build"
    and "NewHelper env build = None"
  shows "reconcileJobs env namespace name =
     (case processFailedScanJob env job build (jobLabel job ProvisionerIDLabel) of
        (calls, Panic) \<Rightarrow> (calls, Panic)
      | (calls, Ret err) \<Rightarrow> (calls @ logFailure err, Ret (emptyResult, err)))"
  using assms by (simp add: reconcileJobs_def Let_def)

lemma reconcileJobs_other:
  assumes "GetJob env namespace name = Inr job"
    and "jobConditions job = JobOtherCondition t # others"
    and "GetBuild env (jobLabel job BuildNamespaceLabel) (jobLabel job BuildNameLabel) = Inr build"
    and "NewHelper env build = None"
  shows "reconcileJobs env namespace name =
     ([LogError (Errorf (''unrecognized scan job condition: '' @ t)) ''Failed processing job''],
      Ret (emptyResult, Some (Errorf (''unrecognized scan job condition: '' @ t))))"
  using assms by (simp add: reconcileJobs_def Let_def logFailure_def)

lemma reconcileJobs_other_calls:
  assumes "GetJob env namespace name = Inr job"
    and "jobConditions job = JobOtherCondition t # others"
  shows "\<exists>calls r. reconcileJobs env namespace name = (calls, Ret (emptyResult, r))
           \<and> (\<forall>c \<in> set calls. \<exists>x y. c = LogInfo x \<or> c = LogError y x)"
  using assms
  by (auto simp: reconcileJobs_def Let_def logFailure_def split: sum.splits option.splits)

text \<open>
  C9. The observer reconciles a Job whose first condition is Failed, the Build and the Pod
  of the Job are found, and exactly one container status of the Pod (init containers and
  containers together) is terminated, with exit code 1, reason "Error" and message "boom".
  The provisioner is located by the UUID label of the Job. Then the observer logs the
  failure, sets the provisioner to status Failed with failure reason "Error" and failure
  message "boom", patches that Build, and after the patch deletes the Job; the error it
  returns is the error of the delete.
\<close>

theorem observer_failed_job:
  assumes "GetJob env namespace name = Inr job"
    and "jobConditions job = JobFailed # others"
    and "GetBuild env (jobLabel job BuildNamespaceLabel) (jobLabel job BuildNameLabel) = Inr build"
    and "NewHelper env build = None"
    and "getPodByJob env job = Ret (Inr (Some pod))"
    and "filter (\<lambda>c. csTerminated c \<noteq> None) (InitContainerStatuses pod @ ContainerStatuses pod) = [c0]"
    and "csTerminated c0 = Some \<lparr>ExitCode = 1, Reason = ''Error'', Message = ''boom''\<rparr>"
    and "findProvisioner (Provisioners (Spec build)) (jobLabel job ProvisionerIDLabel) = Some i"
  shows "(let build' = updateProvisioner i
                         (\<lambda>p. p\<lparr>FailureReason := Some ''Error'', FailureMessage := Some ''boom'',
                                  Status := Some ProvisionerStatusFailed\<rparr>) build
          in reconcileJobs env namespace name =
               ([LogInfo ''Job failed'',
                 LogError (Errorf ''shell job failed'') ''shelljob failed with reason: Error and message: boom'']
                @ patchLogged env build'
                @ [LogInfo ''Deleting failed scan job'', Deleted job]
                @ logFailure (snd (deleteJob env job)),
                Ret (emptyResult, snd (deleteJob env job)))
             \<and> hd (patchLogged env build') = Patched build'
             \<and> Status (Provisioners (Spec build') ! i) = Some ProvisionerStatusFailed
             \<and> FailureReason (Provisioners (Spec build') ! i) = Some ''Error''
             \<and> FailureMessage (Provisioners (Spec build') ! i) = Some ''boom''
             \<and> (case UUID (Provisioners (Spec build) ! i) of None \<Rightarrow> [] | Some u \<Rightarrow> u) =
                 jobLabel job ProvisionerIDLabel)"
proof -
  have il: "i < length (Provisioners (Spec build))"
    and iu: "(case UUID (Provisioners (Spec build) ! i) of None \<Rightarrow> [] | Some u \<Rightarrow> u) =
               jobLabel job ProvisionerIDLabel"
    using findProvisioner_Some[OF assms(8)] by simp_all
  have r: "reconcileJobs env namespace name =
     (case processFailedScanJob env job build (jobLabel job ProvisionerIDLabel) of
        (calls, Panic) \<Rightarrow> (calls, Panic)
      | (calls, Ret err) \<Rightarrow> (calls @ logFailure err, Ret (emptyResult, err)))"
    by (rule reconcileJobs_failed[OF assms(1-4)])
  show ?thesis
    unfolding Let_def r processFailedScanJob_one[OF assms(5-8)]
    using il iu by (simp add: updateProvisioner_def patchLogged_def)
qed

theorem observer_failed_job_witness:
  "reconcileJobs (exampleObserverEnv [JobFailed]) ''forge-core'' ''job-1'' =
     ([LogInfo ''Job failed'',
       LogError (Errorf ''shell job failed'') ''shelljob failed with reason: Error and message: boom'',
       Patched (exampleBuildWith (exampleProvisioner\<lparr>Status := Some ProvisionerStatusFailed\<rparr>)),
       LogInfo ''Deleting failed scan job'',
       Deleted (exampleJob [JobFailed])],
      Ret (emptyResult, None))"
proof -
  have labels:
    "jobLabel (exampleJob [JobFailed]) BuildNamespaceLabel = ''default''"
    "jobLabel (exampleJob [JobFailed]) BuildNameLabel = ''img''"
    "jobLabel (exampleJob [JobFailed]) ProvisionerIDLabel = ''u-1''"
    by (simp_all add: jobLabel_def labelOr_def exampleJob_def BuildNamespaceLabel_def
        BuildNameLabel_def ProvisionerIDLabel_def ManagedByLabel_def)
  have pod: "getPodByJob (exampleObserverEnv [JobFailed]) (exampleJob [JobFailed]) = Ret (Inr (Some examplePod))"
    by (simp add: getPodByJob_def podListLookup_def exampleObserverEnv_def exampleJob_def
        labelOr_def Let_def)
  have upd: "updateProvisioner 0
       (\<lambda>p. p\<lparr>FailureReason := Some ''Error'', FailureMessage := Some ''boom'',
                Status := Some ProvisionerStatusFailed\<rparr>) (exampleBuildWith exampleRunning) =
     exampleBuildWith (exampleProvisioner\<lparr>Status := Some ProvisionerStatusFailed\<rparr>)"
    by (simp add: updateProvisioner_def exampleBuildWith_def exampleRunning_def exampleProvisioner_def
        exampleBuild_def exampleSpec_def)
  show ?thesis
    using observer_failed_job
      [of "exampleObserverEnv [JobFailed]" "''forge-core''" "''job-1''" "exampleJob [JobFailed]" "[]"
          "exampleBuildWith exampleRunning" examplePod
          "\<lparr>csName = ''shell-provisioner'',
            csTerminated = Some \<lparr>ExitCode = 1, Reason = ''Error'', Message = ''boom''\<rparr>\<rparr>" 0]
    unfolding labels pod upd Let_def
    by (simp add: exampleObserverEnv_def exampleJob_def examplePod_def exampleBuildWith_def
        exampleRunning_def exampleProvisioner_def exampleBuild_def exampleSpec_def
        patchLogged_def deleteJob_def logFailure_def)
qed

text \<open>
  C7, as the code has it. The observer reconciles a Job whose first condition is neither
  Complete nor Failed. Whatever the store answers, the pass makes no patch and no delete:
  its only calls are log lines. When the Build is found and its patch helper is set up,
  the pass logs the error "unrecognized scan job condition" once and returns that error
  with an empty result; nothing is written to the Build or to its provisioners.
\<close>

theorem observer_unrecognized_condition:
  assumes "GetJob env namespace name = Inr job"
    and "jobConditions job = JobOtherCondition t # others"
  shows "(\<exists>calls r. reconcileJobs env namespace name = (calls, Ret (emptyResult, r))
            \<and> (\<forall>c \<in> set calls. \<exists>x y. c = LogInfo x \<or> c = LogError y x))
         \<and> (GetBuild env (jobLabel job BuildNamespaceLabel) (jobLabel job BuildNameLabel) = Inr build
              \<and> NewHelper env build = None \<longrightarrow>
             reconcileJobs env namespace name =
               ([LogError (Errorf (''unrecognized scan job condition: '' @ t)) ''Failed processing job''],
                Ret (emptyResult, Some (Errorf (''unrecognized scan job condition: '' @ t)))))"
  using reconcileJobs_other_calls[OF assms] reconcileJobs_other[OF assms(1,2)] by blast

theorem observer_unrecognized_condition_witness:
  "reconcileJobs (exampleObserverEnv [JobOtherCondition ''Suspended'']) ''forge-core'' ''job-1'' =
     ([LogError (Errorf ''unrecognized scan job condition: Suspended'') ''Failed processing job''],
      Ret (emptyResult, Some (Errorf ''unrecognized scan job condition: Suspended'')))"
  using observer_unrecognized_condition
    [of "exampleObserverEnv [JobOtherCondition ''Suspended'']" "''forge-core''" "''job-1''"
        "exampleJob [JobOtherCondition ''Suspended'']" "''Suspended''" "[]" "exampleBuildWith exampleRunning"]
  by (simp add: exampleObserverEnv_def exampleJob_def jobLabel_def labelOr_def BuildNamespaceLabel_def
      BuildNameLabel_def ProvisionerIDLabel_def ManagedByLabel_def)

text \<open>
  The claim that such a pass never returns a reconcile error fails: for a Job whose
  first condition is Suspended the pass returns the error.
\<close>

theorem observer_unrecognized_condition_counterexample:
  "snd (reconcileJobs (exampleObserverEnv [JobOtherCondition ''Suspended'']) ''forge-core'' ''job-1'') \<noteq>
     Ret (emptyResult, None)
   \<and> snd (reconcileJobs (exampleObserverEnv [JobOtherCondition ''Suspended'']) ''forge-core'' ''job-1'') =
     Ret (emptyResult, Some (Errorf ''unrecognized scan job condition: Suspended''))"
  by (simp add: reconcileJobs_def exampleObserverEnv_def exampleJob_def jobLabel_def labelOr_def
      Let_def logFailure_def BuildNamespaceLabel_def BuildNameLabel_def ProvisionerIDLabel_def
      ManagedByLabel_def)

end
